theory Spec2Isabelle
  imports Main "HOL-Library.Word"
begin

unbundle bit_operations_syntax

section \<open>The 3DS importer (code/3DSLoader.cpp) as a functional model\<close>

text \<open>
  The importer walks an immutable byte buffer with a cursor (\<open>mCurrent\<close>). Pointers
  into the buffer are offsets from \<open>mBuffer\<close>, kept as unbounded integers; \<open>mLast\<close> is
  the buffer's length. The host is taken to be little-endian, as the casts of the
  source assume. A read through a pointer outside the buffer, a dereference of a null
  pointer and an out-of-range vector access are undefined in C++; the model makes each
  of them an explicit result, next to the exception the importer throws.
\<close>

subsection \<open>Values\<close>

type_synonym byte = "8 word"
type_synonym uint16_t = "16 word"
type_synonym uint32_t = "32 word"

text \<open>
  Floats are kept as the expression that computes them: a float taken from the file is
  its four bytes, and each operation of the source is a constructor. The importer
  itself never looks at the value of an expression; \<open>binary32\<close> below evaluates one.
\<close>

datatype float32 =
    Raw uint32_t
  | quiet_NaN
  | Lit int nat
  | OfU8 byte
  | OfS16 uint16_t
  | FSub float32 float32
  | FMul float32 float32
  | FDiv float32 float32
  | Powf float32 float32

text \<open>\<open>Lit m e\<close> is the literal \<open>m / 10^e\<close>: \<open>2.2f\<close> is \<open>Lit 22 1\<close>.\<close>

definition f_zero :: float32 where "f_zero = Lit 0 0"
definition f_one :: float32 where "f_one = Lit 1 0"
definition f_100 :: float32 where "f_100 = Lit 100 0"
definition f_255 :: float32 where "f_255 = Lit 255 0"
definition f_0xFFFF :: float32 where "f_0xFFFF = Lit 65535 0"

text \<open>
  \<open>if (f)\<close> and \<open>0.0f == f\<close> on a float taken from the file: both zeros compare equal
  to zero, every other bit pattern (NaNs included) does not.
\<close>

definition raw_nonzero :: "uint32_t \<Rightarrow> bool" where
  "raw_nonzero w = (w AND 0x7FFFFFFF \<noteq> 0)"

subsection \<open>The value of a float expression\<close>

text \<open>
  \<open>float\<close> is IEEE 754 binary32 and every operation is rounded to nearest, ties to even.
  A positive normal number is \<open>m * 2 ^ e\<close> with a mantissa \<open>2 ^ 23 \<le> m < 2 ^ 24\<close>;
  the word stores \<open>e + 150\<close> in bits 23 to 30 and \<open>m - 2 ^ 23\<close> in bits 0 to 22.
  Products, quotients, decimal literals and conversions of positive integers are
  evaluated here, on positive normal operands with a positive normal result; zero,
  subnormal, infinite, negative and not-a-number operands, and the operations left out
  (subtraction, \<open>powf\<close>), have no value (\<open>None\<close>).
\<close>

function bitlen :: "int \<Rightarrow> int" where
  "bitlen n = (if n \<le> 0 then 0 else 1 + bitlen (n div 2))"
  by auto
termination by (relation "measure nat") auto

declare bitlen.simps [simp del]

text \<open>The quotient \<open>N / D\<close> of two positive integers as an integer, ties to even.\<close>

definition round_nearest_even :: "int \<Rightarrow> int \<Rightarrow> int" where
  "round_nearest_even N D =
     (let q = N div D; r = N mod D
      in if 2 * r > D \<or> (2 * r = D \<and> odd q) then q + 1 else q)"

definition scaled :: "int \<Rightarrow> int \<Rightarrow> int \<Rightarrow> int \<times> int" where
  "scaled N D s = (if s \<ge> 0 then (N * 2 ^ nat s, D) else (N, D * 2 ^ nat (- s)))"

text \<open>
  The mantissa and exponent of \<open>N / D * 2 ^ E\<close> rounded to 24 bits: \<open>N / D\<close> is scaled
  by the power of two that brings it into \<open>[2 ^ 23, 2 ^ 24)\<close>, rounded, and renormalised
  when the rounding carries into the 25th bit.
\<close>

definition round24 :: "int \<Rightarrow> int \<Rightarrow> int \<Rightarrow> int \<times> int" where
  "round24 N D E =
     (let s0 = 24 + bitlen D - bitlen N;
          s = (if fst (scaled N D s0) div snd (scaled N D s0) \<ge> 2 ^ 24 then s0 - 1 else s0);
          m = round_nearest_even (fst (scaled N D s)) (snd (scaled N D s))
      in if m = 2 ^ 24 then (2 ^ 23, E - s + 1) else (m, E - s))"

definition encode32 :: "int \<times> int \<Rightarrow> uint32_t option" where
  "encode32 me =
     (case me of (m, e) \<Rightarrow>
        if 1 \<le> e + 150 \<and> e + 150 \<le> 254 \<and> 2 ^ 23 \<le> m \<and> m < 2 ^ 24
        then Some (push_bit 23 (word_of_int (e + 150)) OR word_of_int (m - 2 ^ 23))
        else None)"

definition decode32 :: "uint32_t \<Rightarrow> (int \<times> int) option" where
  "decode32 w =
     (let E = uint (drop_bit 23 w)
      in if 1 \<le> E \<and> E \<le> 254
         then Some (2 ^ 23 + uint (w AND 0x7FFFFF), E - 150)
         else None)"

definition fmul32 :: "uint32_t \<Rightarrow> uint32_t \<Rightarrow> uint32_t option" where
  "fmul32 a b =
     (case (decode32 a, decode32 b) of
        (Some (m1, e1), Some (m2, e2)) \<Rightarrow> encode32 (round24 (m1 * m2) 1 (e1 + e2))
      | _ \<Rightarrow> None)"

definition fdiv32 :: "uint32_t \<Rightarrow> uint32_t \<Rightarrow> uint32_t option" where
  "fdiv32 a b =
     (case (decode32 a, decode32 b) of
        (Some (m1, e1), Some (m2, e2)) \<Rightarrow> encode32 (round24 m1 m2 (e1 - e2))
      | _ \<Rightarrow> None)"

fun binary32 :: "float32 \<Rightarrow> uint32_t option" where
  "binary32 (Raw w) = Some w"
| "binary32 (Lit m e) = (if m > 0 then encode32 (round24 m (10 ^ e) 0) else None)"
| "binary32 (OfU8 b) = (if b = 0 then None else encode32 (round24 (uint b) 1 0))"
| "binary32 (OfS16 w) = (if sint w > 0 then encode32 (round24 (sint w) 1 0) else None)"
| "binary32 (FMul a b) =
     (case (binary32 a, binary32 b) of (Some x, Some y) \<Rightarrow> fmul32 x y | _ \<Rightarrow> None)"
| "binary32 (FDiv a b) =
     (case (binary32 a, binary32 b) of (Some x, Some y) \<Rightarrow> fdiv32 x y | _ \<Rightarrow> None)"
| "binary32 _ = None"

text \<open>
  \<open>if (f)\<close> and \<open>!f\<close> on a float expression. A float of the file, a literal and a
  converted integer are zero or not without any rounding. For a product, quotient,
  difference or power the value is taken from \<open>binary32\<close>, and where that gives none the
  expression counts as different from zero.
\<close>

definition nonzero :: "float32 \<Rightarrow> bool" where
  "nonzero f =
     (case f of
        Raw w \<Rightarrow> raw_nonzero w
      | quiet_NaN \<Rightarrow> True
      | Lit m e \<Rightarrow> m \<noteq> 0
      | OfU8 b \<Rightarrow> b \<noteq> 0
      | OfS16 w \<Rightarrow> w \<noteq> 0
      | _ \<Rightarrow> (case binary32 f of Some w \<Rightarrow> raw_nonzero w | None \<Rightarrow> True))"

record aiColor3D =
  cr :: float32
  cg :: float32
  cb :: float32

record aiVector3D =
  vx :: uint32_t
  vy :: uint32_t
  vz :: uint32_t

record aiVector2D =
  ux :: uint32_t
  uy :: uint32_t

datatype aiQuaternion = Quaternion_axis_angle aiVector3D uint32_t

datatype aiTextureMapMode = MapMode_default | aiTextureMapMode_Mirror | aiTextureMapMode_Clamp

subsection \<open>Failures and the log\<close>

datatype undefined_behaviour = NullPointer | BufferOverread | VectorOutOfRange

datatype error =
    ImportErrorException string
  | UndefinedBehaviour undefined_behaviour

datatype log_entry =
    LogInfo string
  | LogVersion uint16_t
  | LogWarn string
  | LogError string

definition bindE :: "error + 'a \<Rightarrow> ('a \<Rightarrow> error + 'b) \<Rightarrow> error + 'b" where
  "bindE m f = (case m of Inl e \<Rightarrow> Inl e | Inr v \<Rightarrow> f v)"

text \<open>
  The same for a step that may itself need more calls than the count allows: \<open>bindO\<close>
  continues after a step that cannot, \<open>thenO\<close> after one that can.
\<close>

definition bindO :: "error + 'a \<Rightarrow> ('a \<Rightarrow> (error + 'b) option) \<Rightarrow> (error + 'b) option" where
  "bindO m f = (case m of Inl e \<Rightarrow> Some (Inl e) | Inr v \<Rightarrow> f v)"

definition thenO ::
  "(error + 'a) option \<Rightarrow> ('a \<Rightarrow> (error + 'b) option) \<Rightarrow> (error + 'b) option" where
  "thenO m f = (case m of None \<Rightarrow> None | Some (Inl e) \<Rightarrow> Some (Inl e) | Some (Inr v) \<Rightarrow> f v)"

subsection \<open>The intermediate scene (3DSHelper.h)\<close>

record Texture =
  mMapName :: "byte list"
  mTextureBlend :: float32
  mScaleU :: float32
  mScaleV :: float32
  mOffsetU :: float32
  mOffsetV :: float32
  mRotation :: float32
  mMapMode :: aiTextureMapMode

text \<open>The six texture members of a material, for a \<open>Texture*\<close> that points at one of them.\<close>

datatype texture_slot =
  slot_Diffuse | slot_Bump | slot_Opacity | slot_Shininess | slot_Specular | slot_Emissive

record Material =
  mName :: "byte list"
  mDiffuse :: aiColor3D
  mSpecular :: aiColor3D
  mAmbient :: aiColor3D
  mEmissive :: aiColor3D
  mTransparency :: float32
  mShading :: uint16_t
  mTwoSided :: bool
  mSpecularExponent :: float32
  mShininessStrength :: float32
  sTexDiffuse :: Texture
  sTexBump :: Texture
  sTexOpacity :: Texture
  sTexShininess :: Texture
  sTexSpecular :: Texture
  sTexEmissive :: Texture

record Face =
  mIndices :: "uint32_t \<times> uint32_t \<times> uint32_t"
  iSmoothGroup :: uint32_t

record Mesh =
  meshName :: "byte list"
  mMat :: "uint32_t list"
  mPositions :: "aiVector3D list"
  mTexCoords :: "aiVector2D list"
  mFaces :: "Face list"
  mFaceMaterials :: "uint32_t list"

record Scene =
  mMeshes :: "Mesh list"
  mMaterials :: "Material list"

text \<open>
  Nodes live in one growing list; a \<open>Node*\<close> is an index into it, and a null pointer
  is \<open>None\<close>.
\<close>

record Node =
  mParent :: "nat option"
  mChildren :: "nat list"
  nodeName :: "byte list"
  mHierarchyPos :: int
  mHierarchyIndex :: int
  vPivot :: aiVector3D
  aPositionKeys :: "(uint16_t \<times> aiVector3D) list"
  aRotationKeys :: "(uint16_t \<times> aiQuaternion) list"
  aScalingKeys :: "(uint16_t \<times> aiVector3D) list"

text \<open>
  What the build and the headers that are not part of the source file decide: the two
  preprocessor switches, the test for the not-a-number sentinel (qnan.h), the sign of a
  matrix determinant and the vertex transformation that follows from it (aiMatrix4x4),
  and the objects the default constructors of 3DSHelper.h create.
\<close>

record config =
  DEBUG :: bool
  AI_3DS_KEYFRAME_ANIMATION :: bool
  is_qnan :: "float32 \<Rightarrow> bool"
  Determinant_negative :: "uint32_t list \<Rightarrow> bool"
  flip_vertex :: "uint32_t list \<Rightarrow> aiVector3D \<Rightarrow> aiVector3D"
  new_Face :: Face
  new_Mesh :: Mesh
  new_Material :: Material
  new_Node :: Node

record importer =
  mBuffer :: "byte list"
  mCurrent :: int
  mScene :: Scene
  nodes :: "Node list"
  mRootNode :: "nat option"
  mCurrentNode :: "nat option"
  mLastNodeIndex :: int
  mMasterScale :: float32
  mBackgroundImage :: "byte list"
  bHasBG :: bool
  mClrAmbient :: aiColor3D
  logger :: "log_entry list"

definition mLast :: "importer \<Rightarrow> int" where
  "mLast st = int (length (mBuffer st))"

definition log_add :: "log_entry \<Rightarrow> importer \<Rightarrow> importer" where
  "log_add e st = st\<lparr>logger := logger st @ [e]\<rparr>"

definition advance :: "int \<Rightarrow> importer \<Rightarrow> importer" where
  "advance n st = st\<lparr>mCurrent := mCurrent st + n\<rparr>"

subsection \<open>Reading through a pointer\<close>

definition peek_u8 :: "importer \<Rightarrow> int \<Rightarrow> error + byte" where
  "peek_u8 st p =
     (if 0 \<le> p \<and> p < mLast st then Inr (mBuffer st ! nat p)
      else Inl (UndefinedBehaviour BufferOverread))"

definition peek_u16 :: "importer \<Rightarrow> int \<Rightarrow> error + uint16_t" where
  "peek_u16 st p =
     bindE (peek_u8 st p) (\<lambda>b0.
     bindE (peek_u8 st (p + 1)) (\<lambda>b1.
       Inr (ucast b0 OR push_bit 8 (ucast b1))))"

definition peek_u32 :: "importer \<Rightarrow> int \<Rightarrow> error + uint32_t" where
  "peek_u32 st p =
     bindE (peek_u16 st p) (\<lambda>w0.
     bindE (peek_u16 st (p + 2)) (\<lambda>w1.
       Inr (ucast w0 OR push_bit 16 (ucast w1))))"

definition peek_vec3 :: "importer \<Rightarrow> int \<Rightarrow> error + aiVector3D" where
  "peek_vec3 st p =
     bindE (peek_u32 st p) (\<lambda>a.
     bindE (peek_u32 st (p + 4)) (\<lambda>b.
     bindE (peek_u32 st (p + 8)) (\<lambda>c.
       Inr \<lparr>vx = a, vy = b, vz = c\<rparr>)))"

definition peek_vec2 :: "importer \<Rightarrow> int \<Rightarrow> error + aiVector2D" where
  "peek_vec2 st p =
     bindE (peek_u32 st p) (\<lambda>a.
     bindE (peek_u32 st (p + 4)) (\<lambda>b.
       Inr \<lparr>ux = a, uy = b\<rparr>))"

text \<open>\<open>std::string(p, n)\<close>: the \<open>n\<close> bytes at \<open>p\<close>.\<close>

definition peek_bytes :: "importer \<Rightarrow> int \<Rightarrow> nat \<Rightarrow> error + byte list" where
  "peek_bytes st p n =
     (if n = 0 then Inr []
      else if 0 \<le> p \<and> p + int n \<le> mLast st then Inr (take n (drop (nat p) (mBuffer st)))
      else Inl (UndefinedBehaviour BufferOverread))"

text \<open>
  A C string: the bytes up to the first zero byte. \<open>std::string(p)\<close> and the string
  comparison read it with no bound but the terminator.
\<close>

fun until_zero :: "byte list \<Rightarrow> byte list option" where
  "until_zero [] = None"
| "until_zero (c # cs) =
     (if c = 0 then Some [] else map_option ((#) c) (until_zero cs))"

definition peek_cstring :: "importer \<Rightarrow> int \<Rightarrow> error + byte list" where
  "peek_cstring st p =
     (if 0 \<le> p \<and> p < mLast st then
        (case until_zero (drop (nat p) (mBuffer st)) of
           None \<Rightarrow> Inl (UndefinedBehaviour BufferOverread)
         | Some s \<Rightarrow> Inr s)
      else Inl (UndefinedBehaviour BufferOverread))"

text \<open>
  The loop that measures a zero-terminated name inside a chunk,
  \<^verbatim>\<open>while (*sz++ != '\0') { if (sz > pcCurNext-1) break; ++iCnt; }\<close>
  It yields the final \<open>sz\<close>, the final \<open>iCnt\<close> and whether it left through the break.
\<close>

function scan_asciiz :: "importer \<Rightarrow> int \<Rightarrow> int \<Rightarrow> nat \<Rightarrow> error + (int \<times> nat \<times> bool)" where
  "scan_asciiz st pcCurNext sz iCnt =
     (if 0 \<le> sz \<and> sz < mLast st then
        (if mBuffer st ! nat sz = 0 then Inr (sz + 1, iCnt, False)
         else if sz + 1 > pcCurNext - 1 then Inr (sz + 1, iCnt, True)
         else scan_asciiz st pcCurNext (sz + 1) (iCnt + 1))
      else Inl (UndefinedBehaviour BufferOverread))"
  by pat_completeness auto
termination
  by (relation "measure (\<lambda>(st, nx, sz, c). nat (mLast st - sz))") auto

declare scan_asciiz.simps [simp del]

subsection \<open>Chunk headers\<close>

record Chunk =
  Flag :: uint16_t
  Size :: uint32_t

text \<open>
  Modelled from the spec: \<open>Dot3DSFile::Chunk\<close> is declared in 3DSHelper.h, which is not
  part of the source. The spec gives the layout: a 16-bit tag followed by a 32-bit
  total size, so a header takes six bytes.
\<close>

definition sizeof_Chunk :: int where
  "sizeof_Chunk = 6"

definition peek_Chunk :: "importer \<Rightarrow> int \<Rightarrow> error + Chunk" where
  "peek_Chunk st p =
     bindE (peek_u16 st p) (\<lambda>f.
     bindE (peek_u32 st (p + 2)) (\<lambda>s.
       Inr \<lparr>Flag = f, Size = s\<rparr>))"

definition msg_no_header :: string where
  "msg_no_header = ''Unexpected end of file, can't read chunk header''"

definition msg_no_footer :: string where
  "msg_no_footer = ''Unexpected end of file, can't read chunk footer''"

definition ReadChunk :: "importer \<Rightarrow> error + (Chunk option \<times> importer)" where
  "ReadChunk st =
     (if mCurrent st \<ge> mLast st then
        Inl (ImportErrorException msg_no_header)
      else if mLast st - mCurrent st < sizeof_Chunk then Inr (None, st)
      else
        bindE (peek_Chunk st (mCurrent st)) (\<lambda>c.
          if uint (Size c) + mCurrent st > mLast st then
            Inl (ImportErrorException msg_no_footer)
          else Inr (Some c, advance sizeof_Chunk st)))"

text \<open>
  \<open>ASSIMP_3DS_BEGIN_CHUNK\<close>: the header, and \<open>pcCurNext\<close>, the cursor after the header
  plus the declared size less the header. The macro reads \<open>psChunk->Size\<close> without
  testing \<open>psChunk\<close>.
\<close>

definition ASSIMP_3DS_BEGIN_CHUNK :: "importer \<Rightarrow> error + (Chunk \<times> int \<times> importer)" where
  "ASSIMP_3DS_BEGIN_CHUNK st =
     bindE (ReadChunk st) (\<lambda>(psChunk, st1).
       case psChunk of
         None \<Rightarrow> Inl (UndefinedBehaviour NullPointer)
       | Some c \<Rightarrow> Inr (c, mCurrent st1 + (uint (Size c) - sizeof_Chunk), st1))"

definition ASSIMP_3DS_WARN_CHUNK_OVERFLOW_MSG :: string where
  "ASSIMP_3DS_WARN_CHUNK_OVERFLOW_MSG =
     ''Size of chunk data plus size of subordinate chunks is larger than the size specified in the top-level chunk header.''"

definition ASSIMP_3DS_VALIDATE_CHUNK_SIZE :: "config \<Rightarrow> int \<Rightarrow> importer \<Rightarrow> int \<times> importer" where
  "ASSIMP_3DS_VALIDATE_CHUNK_SIZE cfg pcCurNext st =
     (if DEBUG cfg \<and> pcCurNext < mCurrent st
      then (mCurrent st, log_add (LogWarn ASSIMP_3DS_WARN_CHUNK_OVERFLOW_MSG) st)
      else (pcCurNext, st))"

text \<open>
  \<open>ASSIMP_3DS_END_CHUNK\<close>: the new cursor, the new budget, and whether the function
  returns (\<open>0 >= piRemaining\<close>).
\<close>

definition ASSIMP_3DS_END_CHUNK :: "Chunk \<Rightarrow> int \<Rightarrow> uint32_t \<Rightarrow> importer \<Rightarrow> importer \<times> uint32_t \<times> bool" where
  "ASSIMP_3DS_END_CHUNK psChunk pcCurNext piRemaining st =
     (let r = piRemaining - Size psChunk
      in (st\<lparr>mCurrent := pcCurNext\<rparr>, r, sint r \<le> 0))"

text \<open>
  Every \<open>Parse...Chunk\<close> function has the same frame: begin a chunk, switch on its tag,
  validate, end the chunk, and call itself again unless the budget is used up. The
  frame is written once; the switch is its argument. The source's recursion has no
  bound of its own, so the model counts calls: \<open>None\<close> is a run that needs more calls
  than the count allows.
\<close>

type_synonym handler = "nat \<Rightarrow> Chunk \<Rightarrow> int \<Rightarrow> importer \<Rightarrow> (error + importer) option"

fun parse_chunks :: "config \<Rightarrow> handler \<Rightarrow> nat \<Rightarrow> importer \<Rightarrow> uint32_t \<Rightarrow> (error + importer) option" where
  "parse_chunks cfg switch 0 st piRemaining = None"
| "parse_chunks cfg switch (Suc n) st piRemaining =
     (case ASSIMP_3DS_BEGIN_CHUNK st of
        Inl e \<Rightarrow> Some (Inl e)
      | Inr (psChunk, pcCurNext, st1) \<Rightarrow>
          (case switch n psChunk pcCurNext st1 of
             None \<Rightarrow> None
           | Some (Inl e) \<Rightarrow> Some (Inl e)
           | Some (Inr st2) \<Rightarrow>
               (case ASSIMP_3DS_VALIDATE_CHUNK_SIZE cfg pcCurNext st2 of
                  (pcCurNext', st3) \<Rightarrow>
                    (case ASSIMP_3DS_END_CHUNK psChunk pcCurNext' piRemaining st3 of
                       (st4, piRemaining', stop) \<Rightarrow>
                         if stop then Some (Inr st4)
                         else parse_chunks cfg switch n st4 piRemaining'))))"

subsection \<open>Chunk tags\<close>

text \<open>
  Modelled from the spec: the tag constants are declared in 3DSHelper.h, which is not
  part of the source; the spec names the tags by role only. They are given the
  identifiers of the 3DS format. Nothing below depends on the values beyond their being
  distinct.
\<close>

definition CHUNK_RGBF :: uint16_t where "CHUNK_RGBF = 0x0010"
definition CHUNK_RGBB :: uint16_t where "CHUNK_RGBB = 0x0011"
definition CHUNK_LINRGBB :: uint16_t where "CHUNK_LINRGBB = 0x0012"
definition CHUNK_LINRGBF :: uint16_t where "CHUNK_LINRGBF = 0x0013"
definition CHUNK_PERCENTW :: uint16_t where "CHUNK_PERCENTW = 0x0030"
definition CHUNK_PERCENTF :: uint16_t where "CHUNK_PERCENTF = 0x0031"
definition CHUNK_VERSION :: uint16_t where "CHUNK_VERSION = 0x0002"
definition CHUNK_MAIN :: uint16_t where "CHUNK_MAIN = 0x4D4D"
definition CHUNK_OBJMESH :: uint16_t where "CHUNK_OBJMESH = 0x3D3D"
definition CHUNK_MASTER_SCALE :: uint16_t where "CHUNK_MASTER_SCALE = 0x0100"
definition CHUNK_BIT_MAP :: uint16_t where "CHUNK_BIT_MAP = 0x1100"
definition CHUNK_BIT_MAP_EXISTS :: uint16_t where "CHUNK_BIT_MAP_EXISTS = 0x1101"
definition CHUNK_AMBCOLOR :: uint16_t where "CHUNK_AMBCOLOR = 0x2100"
definition CHUNK_OBJBLOCK :: uint16_t where "CHUNK_OBJBLOCK = 0x4000"
definition CHUNK_TRIMESH :: uint16_t where "CHUNK_TRIMESH = 0x4100"
definition CHUNK_VERTLIST :: uint16_t where "CHUNK_VERTLIST = 0x4110"
definition CHUNK_FACELIST :: uint16_t where "CHUNK_FACELIST = 0x4120"
definition CHUNK_FACEMAT :: uint16_t where "CHUNK_FACEMAT = 0x4130"
definition CHUNK_MAPLIST :: uint16_t where "CHUNK_MAPLIST = 0x4140"
definition CHUNK_SMOOLIST :: uint16_t where "CHUNK_SMOOLIST = 0x4150"
definition CHUNK_TRMATRIX :: uint16_t where "CHUNK_TRMATRIX = 0x4160"
definition CHUNK_MAT_MATERIAL :: uint16_t where "CHUNK_MAT_MATERIAL = 0xAFFF"
definition CHUNK_MAT_MATNAME :: uint16_t where "CHUNK_MAT_MATNAME = 0xA000"
definition CHUNK_MAT_AMBIENT :: uint16_t where "CHUNK_MAT_AMBIENT = 0xA010"
definition CHUNK_MAT_DIFFUSE :: uint16_t where "CHUNK_MAT_DIFFUSE = 0xA020"
definition CHUNK_MAT_SPECULAR :: uint16_t where "CHUNK_MAT_SPECULAR = 0xA030"
definition CHUNK_MAT_SHININESS :: uint16_t where "CHUNK_MAT_SHININESS = 0xA040"
definition CHUNK_MAT_SHININESS_PERCENT :: uint16_t where "CHUNK_MAT_SHININESS_PERCENT = 0xA041"
definition CHUNK_MAT_TRANSPARENCY :: uint16_t where "CHUNK_MAT_TRANSPARENCY = 0xA050"
definition CHUNK_MAT_SELF_ILLUM :: uint16_t where "CHUNK_MAT_SELF_ILLUM = 0xA080"
definition CHUNK_MAT_TWO_SIDE :: uint16_t where "CHUNK_MAT_TWO_SIDE = 0xA081"
definition CHUNK_MAT_SELF_ILPCT :: uint16_t where "CHUNK_MAT_SELF_ILPCT = 0xA084"
definition CHUNK_MAT_SHADING :: uint16_t where "CHUNK_MAT_SHADING = 0xA100"
definition CHUNK_MAT_TEXTURE :: uint16_t where "CHUNK_MAT_TEXTURE = 0xA200"
definition CHUNK_MAT_SPECMAP :: uint16_t where "CHUNK_MAT_SPECMAP = 0xA204"
definition CHUNK_MAT_OPACMAP :: uint16_t where "CHUNK_MAT_OPACMAP = 0xA210"
definition CHUNK_MAT_BUMPMAP :: uint16_t where "CHUNK_MAT_BUMPMAP = 0xA230"
definition CHUNK_MAT_MAT_SHINMAP :: uint16_t where "CHUNK_MAT_MAT_SHINMAP = 0xA33C"
definition CHUNK_MAT_SELFIMAP :: uint16_t where "CHUNK_MAT_SELFIMAP = 0xA33D"
definition CHUNK_MAPFILE :: uint16_t where "CHUNK_MAPFILE = 0xA300"
definition CHUNK_MAT_MAP_TILING :: uint16_t where "CHUNK_MAT_MAP_TILING = 0xA351"
definition CHUNK_MAT_MAP_USCALE :: uint16_t where "CHUNK_MAT_MAP_USCALE = 0xA354"
definition CHUNK_MAT_MAP_VSCALE :: uint16_t where "CHUNK_MAT_MAP_VSCALE = 0xA356"
definition CHUNK_MAT_MAP_UOFFSET :: uint16_t where "CHUNK_MAT_MAP_UOFFSET = 0xA358"
definition CHUNK_MAT_MAP_VOFFSET :: uint16_t where "CHUNK_MAT_MAP_VOFFSET = 0xA35A"
definition CHUNK_MAT_MAP_ANG :: uint16_t where "CHUNK_MAT_MAP_ANG = 0xA35C"
definition CHUNK_KEYFRAMER :: uint16_t where "CHUNK_KEYFRAMER = 0xB000"
definition CHUNK_TRACKINFO :: uint16_t where "CHUNK_TRACKINFO = 0xB002"
definition CHUNK_TRACKOBJNAME :: uint16_t where "CHUNK_TRACKOBJNAME = 0xB010"
definition CHUNK_TRACKPIVOT :: uint16_t where "CHUNK_TRACKPIVOT = 0xB013"
definition CHUNK_TRACKPOS :: uint16_t where "CHUNK_TRACKPOS = 0xB020"
definition CHUNK_TRACKROTATE :: uint16_t where "CHUNK_TRACKROTATE = 0xB021"
definition CHUNK_TRACKSCALE :: uint16_t where "CHUNK_TRACKSCALE = 0xB022"

lemmas CHUNK_defs =
  CHUNK_RGBF_def CHUNK_RGBB_def CHUNK_LINRGBB_def CHUNK_LINRGBF_def CHUNK_PERCENTW_def
  CHUNK_PERCENTF_def CHUNK_VERSION_def CHUNK_MAIN_def CHUNK_OBJMESH_def
  CHUNK_MASTER_SCALE_def CHUNK_BIT_MAP_def CHUNK_BIT_MAP_EXISTS_def CHUNK_AMBCOLOR_def
  CHUNK_OBJBLOCK_def CHUNK_TRIMESH_def CHUNK_VERTLIST_def CHUNK_FACELIST_def
  CHUNK_FACEMAT_def CHUNK_MAPLIST_def CHUNK_SMOOLIST_def CHUNK_TRMATRIX_def
  CHUNK_MAT_MATERIAL_def CHUNK_MAT_MATNAME_def CHUNK_MAT_AMBIENT_def CHUNK_MAT_DIFFUSE_def
  CHUNK_MAT_SPECULAR_def CHUNK_MAT_SHININESS_def CHUNK_MAT_SHININESS_PERCENT_def
  CHUNK_MAT_TRANSPARENCY_def CHUNK_MAT_SELF_ILLUM_def CHUNK_MAT_TWO_SIDE_def
  CHUNK_MAT_SELF_ILPCT_def CHUNK_MAT_SHADING_def CHUNK_MAT_TEXTURE_def CHUNK_MAT_SPECMAP_def
  CHUNK_MAT_OPACMAP_def CHUNK_MAT_BUMPMAP_def CHUNK_MAT_MAT_SHINMAP_def
  CHUNK_MAT_SELFIMAP_def CHUNK_MAPFILE_def CHUNK_MAT_MAP_TILING_def CHUNK_MAT_MAP_USCALE_def
  CHUNK_MAT_MAP_VSCALE_def CHUNK_MAT_MAP_UOFFSET_def CHUNK_MAT_MAP_VOFFSET_def
  CHUNK_MAT_MAP_ANG_def CHUNK_KEYFRAMER_def CHUNK_TRACKINFO_def CHUNK_TRACKOBJNAME_def
  CHUNK_TRACKPIVOT_def CHUNK_TRACKPOS_def CHUNK_TRACKROTATE_def CHUNK_TRACKSCALE_def

subsection \<open>Percentage and colour chunks\<close>

definition ParsePercentageChunk :: "importer \<Rightarrow> error + (float32 \<times> importer)" where
  "ParsePercentageChunk st =
     bindE (ReadChunk st) (\<lambda>(psChunk, st1).
       case psChunk of
         None \<Rightarrow> Inr (quiet_NaN, st1)
       | Some c \<Rightarrow>
           if CHUNK_PERCENTF = Flag c then
             (if 4 > uint (Size c) then Inr (quiet_NaN, st1)
              else bindE (peek_u32 st1 (mCurrent st1)) (\<lambda>w. Inr (Raw w, st1)))
           else if CHUNK_PERCENTW = Flag c then
             (if 2 > uint (Size c) then Inr (quiet_NaN, st1)
              else bindE (peek_u16 st1 (mCurrent st1)) (\<lambda>w.
                     Inr (FDiv (OfS16 w) f_0xFFFF, st1)))
           else Inr (quiet_NaN, advance (uint (Size c) - sizeof_Chunk) st1))"

definition clrError :: aiColor3D where
  "clrError = \<lparr>cr = quiet_NaN, cg = quiet_NaN, cb = quiet_NaN\<rparr>"

definition gamma :: "bool \<Rightarrow> aiColor3D \<Rightarrow> aiColor3D" where
  "gamma bGamma c =
     (if bGamma
      then \<lparr>cr = Powf (cr c) (FDiv f_one (Lit 22 1)),
            cg = Powf (cg c) (FDiv f_one (Lit 22 1)),
            cb = Powf (cb c) (FDiv f_one (Lit 22 1))\<rparr>
      else c)"

text \<open>
  The body of \<open>ParseColorChunk\<close> after the header has been read and the cursor moved
  past the payload (\<open>diff\<close> bytes, an \<open>unsigned int\<close>); \<open>pcCur\<close> points at the payload.
  \<open>None\<close> is the \<open>default\<close> label, where the function calls itself again.
\<close>

definition color_of_chunk ::
  "bool \<Rightarrow> Chunk \<Rightarrow> int \<Rightarrow> importer \<Rightarrow> (error + aiColor3D) option" where
  "color_of_chunk p_bAcceptPercent c pcCur st =
     (let diff = Size c - 6;
          bGamma = (Flag c = CHUNK_LINRGBF \<or> Flag c = CHUNK_LINRGBB)
      in
      if Flag c = CHUNK_LINRGBF \<or> Flag c = CHUNK_RGBF then
        Some (if 12 > uint diff then Inr clrError
              else bindE (peek_u32 st pcCur) (\<lambda>f0.
                   bindE (peek_u32 st (pcCur + 4)) (\<lambda>f1.
                   bindE (peek_u32 st (pcCur + 8)) (\<lambda>f2.
                     Inr (gamma bGamma \<lparr>cr = Raw f0, cg = Raw f1, cb = Raw f2\<rparr>)))))
      else if Flag c = CHUNK_LINRGBB \<or> Flag c = CHUNK_RGBB then
        Some (if 3 > uint diff then Inr clrError
              else bindE (peek_u8 st pcCur) (\<lambda>b0.
                   bindE (peek_u8 st (pcCur + 1)) (\<lambda>b1.
                   bindE (peek_u8 st (pcCur + 2)) (\<lambda>b2.
                     Inr (gamma bGamma
                            \<lparr>cr = FDiv (OfU8 b0) f_255,
                             cg = FDiv (OfU8 b1) f_255,
                             cb = FDiv (OfU8 b2) f_255\<rparr>)))))
      else if Flag c = CHUNK_PERCENTF then
        Some (if p_bAcceptPercent \<and> 4 \<le> uint diff
              then bindE (peek_u32 st pcCur) (\<lambda>f.
                     Inr \<lparr>cr = Raw f, cg = Raw f, cb = Raw f\<rparr>)
              else Inr clrError)
      else if Flag c = CHUNK_PERCENTW then
        Some (if p_bAcceptPercent \<and> 1 \<le> uint diff
              then bindE (peek_u8 st pcCur) (\<lambda>b0.
                     Inr \<lparr>cr = FDiv (OfU8 b0) f_255,
                          cg = FDiv (OfU8 b0) f_255,
                          cb = FDiv (OfU8 b0) f_255\<rparr>)
              else Inr clrError)
      else None)"

function ParseColorChunk :: "bool \<Rightarrow> importer \<Rightarrow> error + (aiColor3D \<times> importer)" where
  "ParseColorChunk p_bAcceptPercent st =
     (case ReadChunk st of
        Inl e \<Rightarrow> Inl e
      | Inr (psChunk, st1) \<Rightarrow>
          (case psChunk of
             None \<Rightarrow> Inr (clrError, st1)
           | Some c \<Rightarrow>
               (let pcCur = mCurrent st1;
                    st2 = advance (uint (Size c - 6)) st1
                in case color_of_chunk p_bAcceptPercent c pcCur st2 of
                     Some (Inl e) \<Rightarrow> Inl e
                   | Some (Inr clr) \<Rightarrow> Inr (clr, st2)
                   | None \<Rightarrow> ParseColorChunk p_bAcceptPercent st2)))"
  by pat_completeness auto
termination
proof (relation "measure (\<lambda>(a, st). nat (mLast st - mCurrent st))", goal_cases)
  case 1
  show ?case by simp
next
  case (2 p_bAcceptPercent st x2 psChunk st1 c pcCur st2)
  then have "mCurrent st < mLast st" and "mCurrent st1 = mCurrent st + 6" and "mLast st1 = mLast st"
    by (auto simp: ReadChunk_def bindE_def advance_def mLast_def sizeof_Chunk_def
             split: if_splits sum.splits)
  moreover have "- 6 < uint (Size c - 6)"
    using uint_ge_0 [of "Size c - 6"] by linarith
  ultimately show ?case
    using 2 by (simp add: advance_def mLast_def)
qed

declare ParseColorChunk.simps [simp del]

subsection \<open>Vectors\<close>

text \<open>\<open>v.back()\<close> of a \<open>std::vector\<close>, read and written; it is undefined on an empty vector.\<close>

definition back_upd :: "('a \<Rightarrow> 'a) \<Rightarrow> 'a list \<Rightarrow> error + 'a list" where
  "back_upd f xs =
     (if xs = [] then Inl (UndefinedBehaviour VectorOutOfRange)
      else Inr (butlast xs @ [f (last xs)]))"

definition vec_back :: "'a list \<Rightarrow> error + 'a" where
  "vec_back xs =
     (if xs = [] then Inl (UndefinedBehaviour VectorOutOfRange) else Inr (last xs))"

definition with_material :: "(Material \<Rightarrow> Material) \<Rightarrow> importer \<Rightarrow> error + importer" where
  "with_material f st =
     bindE (back_upd f (mMaterials (mScene st))) (\<lambda>ms.
       Inr (st\<lparr>mScene := (mScene st)\<lparr>mMaterials := ms\<rparr>\<rparr>))"

fun texture_upd :: "texture_slot \<Rightarrow> (Texture \<Rightarrow> Texture) \<Rightarrow> Material \<Rightarrow> Material" where
  "texture_upd slot_Diffuse f m = m\<lparr>sTexDiffuse := f (sTexDiffuse m)\<rparr>"
| "texture_upd slot_Bump f m = m\<lparr>sTexBump := f (sTexBump m)\<rparr>"
| "texture_upd slot_Opacity f m = m\<lparr>sTexOpacity := f (sTexOpacity m)\<rparr>"
| "texture_upd slot_Shininess f m = m\<lparr>sTexShininess := f (sTexShininess m)\<rparr>"
| "texture_upd slot_Specular f m = m\<lparr>sTexSpecular := f (sTexSpecular m)\<rparr>"
| "texture_upd slot_Emissive f m = m\<lparr>sTexEmissive := f (sTexEmissive m)\<rparr>"

definition with_texture ::
  "texture_slot \<Rightarrow> (Texture \<Rightarrow> Texture) \<Rightarrow> importer \<Rightarrow> error + importer" where
  "with_texture pcOut f st = with_material (texture_upd pcOut f) st"

definition with_mesh :: "(Mesh \<Rightarrow> Mesh) \<Rightarrow> importer \<Rightarrow> error + importer" where
  "with_mesh f st =
     bindE (back_upd f (mMeshes (mScene st))) (\<lambda>ms.
       Inr (st\<lparr>mScene := (mScene st)\<lparr>mMeshes := ms\<rparr>\<rparr>))"

subsection \<open>Texture and material blocks\<close>

definition ParseTextureChunk_switch :: "texture_slot \<Rightarrow> handler" where
  "ParseTextureChunk_switch pcOut n psChunk pcCurNext st = Some (
     if Flag psChunk = CHUNK_MAPFILE then
       bindE (scan_asciiz st pcCurNext (mCurrent st) 0) (\<lambda>(sz, iCnt, overlaps).
       bindE (peek_bytes st (mCurrent st) iCnt) (\<lambda>name.
         with_texture pcOut (\<lambda>t. t\<lparr>mMapName := name\<rparr>) st))
     else if Flag psChunk = CHUNK_PERCENTF then
       bindE (peek_u32 st (mCurrent st)) (\<lambda>w.
         with_texture pcOut (\<lambda>t. t\<lparr>mTextureBlend := Raw w\<rparr>) st)
     else if Flag psChunk = CHUNK_PERCENTW then
       bindE (peek_u16 st (mCurrent st)) (\<lambda>w.
         with_texture pcOut (\<lambda>t. t\<lparr>mTextureBlend := FDiv (OfS16 w) f_100\<rparr>) st)
     else if Flag psChunk = CHUNK_MAT_MAP_USCALE then
       bindE (peek_u32 st (mCurrent st)) (\<lambda>w.
         if raw_nonzero w then with_texture pcOut (\<lambda>t. t\<lparr>mScaleU := Raw w\<rparr>) st
         else with_texture pcOut (\<lambda>t. t\<lparr>mScaleU := f_one\<rparr>)
                (log_add (LogWarn ''Texture coordinate scaling in the x direction is zero. Assuming this should be 1.0 ... '') st))
     else if Flag psChunk = CHUNK_MAT_MAP_VSCALE then
       bindE (peek_u32 st (mCurrent st)) (\<lambda>w.
         if raw_nonzero w then with_texture pcOut (\<lambda>t. t\<lparr>mScaleV := Raw w\<rparr>) st
         else with_texture pcOut (\<lambda>t. t\<lparr>mScaleV := f_one\<rparr>)
                (log_add (LogWarn ''Texture coordinate scaling in the y direction is zero. Assuming this should be 1.0 ... '') st))
     else if Flag psChunk = CHUNK_MAT_MAP_UOFFSET then
       bindE (peek_u32 st (mCurrent st)) (\<lambda>w.
         with_texture pcOut (\<lambda>t. t\<lparr>mOffsetU := Raw w\<rparr>) st)
     else if Flag psChunk = CHUNK_MAT_MAP_VOFFSET then
       bindE (peek_u32 st (mCurrent st)) (\<lambda>w.
         with_texture pcOut (\<lambda>t. t\<lparr>mOffsetV := Raw w\<rparr>) st)
     else if Flag psChunk = CHUNK_MAT_MAP_ANG then
       bindE (peek_u32 st (mCurrent st)) (\<lambda>w.
         with_texture pcOut (\<lambda>t. t\<lparr>mRotation := Raw w\<rparr>) st)
     else if Flag psChunk = CHUNK_MAT_MAP_TILING then
       bindE (peek_u16 st (mCurrent st)) (\<lambda>iFlags.
         if iFlags AND 0x2 \<noteq> 0 then
           with_texture pcOut (\<lambda>t. t\<lparr>mMapMode := aiTextureMapMode_Mirror\<rparr>) st
         else if iFlags AND 0x10 \<noteq> 0 \<and> iFlags AND 0x1 \<noteq> 0 then
           with_texture pcOut (\<lambda>t. t\<lparr>mMapMode := aiTextureMapMode_Clamp\<rparr>) st
         else Inr st)
     else Inr st)"

definition ParseTextureChunk ::
  "config \<Rightarrow> nat \<Rightarrow> texture_slot \<Rightarrow> importer \<Rightarrow> uint32_t \<Rightarrow> (error + importer) option" where
  "ParseTextureChunk cfg n pcOut st piRemaining =
     parse_chunks cfg (ParseTextureChunk_switch pcOut) n st piRemaining"

text \<open>
  Modelled from the spec: the default value of \<open>ParseColorChunk\<close>'s second parameter is
  declared in 3DSLoader.h, which is not part of the source. The spec accepts a
  percentage as a colour only where the call site permits it explicitly.
\<close>

definition p_bAcceptPercent_default :: bool where
  "p_bAcceptPercent_default = False"

text \<open>
  The four colour cases of the material block: parse a colour, and replace it by
  \<open>fallback\<close> when its red channel is the sentinel.
\<close>

definition material_color ::
  "config \<Rightarrow> (aiColor3D \<Rightarrow> Material \<Rightarrow> Material) \<Rightarrow> string \<Rightarrow> float32 \<Rightarrow> importer \<Rightarrow> error + importer" where
  "material_color cfg store msg fallback st =
     bindE (vec_back (mMaterials (mScene st))) (\<lambda>m.
     bindE (ParseColorChunk p_bAcceptPercent_default st) (\<lambda>(pc, st1).
       if is_qnan cfg (cr pc)
       then with_material (store \<lparr>cr = fallback, cg = fallback, cb = fallback\<rparr>)
              (log_add (LogError msg) st1)
       else with_material (store pc) st1))"

definition material_percentage ::
  "config \<Rightarrow> (float32 \<Rightarrow> Material \<Rightarrow> Material) \<Rightarrow> float32 \<Rightarrow> (float32 \<Rightarrow> float32) \<Rightarrow> importer \<Rightarrow> error + importer" where
  "material_percentage cfg store fallback convert st =
     bindE (vec_back (mMaterials (mScene st))) (\<lambda>m.
     bindE (ParsePercentageChunk st) (\<lambda>(pcf, st1).
       if is_qnan cfg pcf then with_material (store fallback) st1
       else with_material (store (convert pcf)) st1))"

definition material_texture ::
  "config \<Rightarrow> nat \<Rightarrow> texture_slot \<Rightarrow> Chunk \<Rightarrow> importer \<Rightarrow> (error + importer) option" where
  "material_texture cfg n slot psChunk st =
     bindO (vec_back (mMaterials (mScene st))) (\<lambda>m.
       ParseTextureChunk cfg n slot st (Size psChunk - 6))"

definition ParseMaterialChunk_switch :: "config \<Rightarrow> handler" where
  "ParseMaterialChunk_switch cfg n psChunk pcCurNext st =
    (if Flag psChunk = CHUNK_MAT_MATNAME then Some (
       bindE (scan_asciiz st pcCurNext (mCurrent st) 0) (\<lambda>(sz, iCnt, overlaps).
       bindE (peek_bytes st (mCurrent st) iCnt) (\<lambda>name.
         with_material (\<lambda>m. m\<lparr>mName := name\<rparr>)
           (if overlaps then log_add (LogError ''Material name string is too long'') st
            else st))))
     else if Flag psChunk = CHUNK_MAT_DIFFUSE then Some (
       material_color cfg (\<lambda>c m. m\<lparr>mDiffuse := c\<rparr>) ''Unable to read DIFFUSE chunk'' f_one st)
     else if Flag psChunk = CHUNK_MAT_SPECULAR then Some (
       material_color cfg (\<lambda>c m. m\<lparr>mSpecular := c\<rparr>) ''Unable to read SPECULAR chunk'' f_one st)
     else if Flag psChunk = CHUNK_MAT_AMBIENT then Some (
       material_color cfg (\<lambda>c m. m\<lparr>mAmbient := c\<rparr>) ''Unable to read AMBIENT chunk'' f_one st)
     else if Flag psChunk = CHUNK_MAT_SELF_ILLUM then Some (
       material_color cfg (\<lambda>c m. m\<lparr>mEmissive := c\<rparr>) ''Unable to read EMISSIVE chunk'' f_zero st)
     else if Flag psChunk = CHUNK_MAT_TRANSPARENCY then Some (
       material_percentage cfg (\<lambda>f m. m\<lparr>mTransparency := f\<rparr>) f_one
         (\<lambda>pcf. FSub f_one (FDiv (FMul pcf f_0xFFFF) f_100)) st)
     else if Flag psChunk = CHUNK_MAT_SHADING then Some (
       bindE (peek_u16 st (mCurrent st)) (\<lambda>w.
       bindE (with_material (\<lambda>m. m\<lparr>mShading := w\<rparr>) st) (\<lambda>st1.
         Inr (advance 2 st1))))
     else if Flag psChunk = CHUNK_MAT_TWO_SIDE then Some (
       with_material (\<lambda>m. m\<lparr>mTwoSided := True\<rparr>) st)
     else if Flag psChunk = CHUNK_MAT_SHININESS then Some (
       material_percentage cfg (\<lambda>f m. m\<lparr>mSpecularExponent := f\<rparr>) f_zero
         (\<lambda>pcf. FMul pcf f_0xFFFF) st)
     else if Flag psChunk = CHUNK_MAT_SHININESS_PERCENT then Some (
       material_percentage cfg (\<lambda>f m. m\<lparr>mShininessStrength := f\<rparr>) f_zero
         (\<lambda>pcf. FMul pcf (FDiv f_0xFFFF f_100)) st)
     else if Flag psChunk = CHUNK_MAT_SELF_ILPCT then Some (
       material_percentage cfg
         (\<lambda>f m. m\<lparr>sTexEmissive := (sTexEmissive m)\<lparr>mTextureBlend := f\<rparr>\<rparr>)
         f_zero (\<lambda>pcf. FDiv (FMul pcf f_0xFFFF) f_100) st)
     else if Flag psChunk = CHUNK_MAT_TEXTURE then material_texture cfg n slot_Diffuse psChunk st
     else if Flag psChunk = CHUNK_MAT_BUMPMAP then material_texture cfg n slot_Bump psChunk st
     else if Flag psChunk = CHUNK_MAT_OPACMAP then material_texture cfg n slot_Opacity psChunk st
     else if Flag psChunk = CHUNK_MAT_MAT_SHINMAP then material_texture cfg n slot_Shininess psChunk st
     else if Flag psChunk = CHUNK_MAT_SPECMAP then material_texture cfg n slot_Specular psChunk st
     else if Flag psChunk = CHUNK_MAT_SELFIMAP then material_texture cfg n slot_Emissive psChunk st
     else Some (Inr st))"

definition ParseMaterialChunk ::
  "config \<Rightarrow> nat \<Rightarrow> importer \<Rightarrow> uint32_t \<Rightarrow> (error + importer) option" where
  "ParseMaterialChunk cfg n st piRemaining =
     parse_chunks cfg (ParseMaterialChunk_switch cfg) n st piRemaining"

subsection \<open>Faces and meshes\<close>

text \<open>
  Modelled from the spec: \<open>ASSIMP_stricmp\<close> is declared in StringComparison.h, which is
  not part of the source. The spec asks for a case-insensitive comparison of names; it
  is written here as the usual loop over two C strings, the first one in the buffer at
  \<open>s1\<close>, the second one a \<open>std::string\<close>'s \<open>c_str()\<close>. The result is zero exactly
  when the strings are equal up to the case of ASCII letters.
\<close>

definition tolower :: "byte \<Rightarrow> byte" where
  "tolower c = (if 0x41 \<le> c \<and> c \<le> 0x5A then c + 0x20 else c)"

fun ASSIMP_stricmp :: "importer \<Rightarrow> int \<Rightarrow> byte list \<Rightarrow> error + int" where
  "ASSIMP_stricmp st s1 [] =
     bindE (peek_u8 st s1) (\<lambda>b. Inr (sint (tolower b)))"
| "ASSIMP_stricmp st s1 (c # cs) =
     bindE (peek_u8 st s1) (\<lambda>b.
       if tolower b \<noteq> 0 \<and> tolower b = tolower c then ASSIMP_stricmp st (s1 + 1) cs
       else Inr (sint (tolower b) - sint (tolower c)))"

text \<open>
  The search for the material of a face-material chunk: the index of the first material
  whose name compares equal, \<open>0xFFFFFFFF\<close> when there is none.
\<close>

fun find_material :: "importer \<Rightarrow> Material list \<Rightarrow> uint32_t \<Rightarrow> error + uint32_t" where
  "find_material st [] iCnt = Inr 0xFFFFFFFF"
| "find_material st (m # ms) iCnt =
     bindE (ASSIMP_stricmp st (mCurrent st) (mName m)) (\<lambda>d.
       if 0 = d then Inr iCnt else find_material st ms (iCnt + 1))"

type_synonym size_t = "64 word"

text \<open>
  \<open>v.size() - 1\<close>, computed in \<open>size_t\<close> (64 bits here), and \<open>v[i] = x\<close>, which is undefined
  out of range.
\<close>

definition size_minus_1 :: "'a list \<Rightarrow> nat" where
  "size_minus_1 xs = unat ((of_nat (length xs) :: size_t) - 1)"

definition vec_set :: "nat \<Rightarrow> 'a \<Rightarrow> 'a list \<Rightarrow> error + 'a list" where
  "vec_set i v xs =
     (if i < length xs then Inr (xs[i := v])
      else Inl (UndefinedBehaviour VectorOutOfRange))"

text \<open>
  The loop over the face indices of a face-material chunk; the first argument is the
  number of indices still to read.
\<close>

fun assign_faces ::
  "nat \<Rightarrow> uint32_t \<Rightarrow> uint32_t list \<Rightarrow> importer \<Rightarrow> error + (uint32_t list \<times> importer)" where
  "assign_faces 0 iIndex fm st = Inr (fm, st)"
| "assign_faces (Suc k) iIndex fm st =
     bindE (peek_u16 st (mCurrent st)) (\<lambda>iTemp.
       if unat iTemp \<ge> length fm then
         bindE (vec_set (size_minus_1 fm) iIndex fm) (\<lambda>fm1.
           assign_faces k iIndex fm1
             (advance 2 (log_add (LogError ''Invalid face index in face material list'') st)))
       else
         bindE (vec_set (unat iTemp) iIndex fm) (\<lambda>fm1.
           assign_faces k iIndex fm1 (advance 2 st)))"

fun read_smoothing :: "importer \<Rightarrow> Face list \<Rightarrow> error + (Face list \<times> importer)" where
  "read_smoothing st [] = Inr ([], st)"
| "read_smoothing st (f # fs) =
     bindE (peek_u32 st (mCurrent st)) (\<lambda>w.
     bindE (read_smoothing (advance 4 st) fs) (\<lambda>(fs1, st1).
       Inr (f\<lparr>iSmoothGroup := w\<rparr> # fs1, st1)))"

definition ParseFaceChunk_switch :: handler where
  "ParseFaceChunk_switch n psChunk pcCurNext st = Some (
     bindE (vec_back (mMeshes (mScene st))) (\<lambda>mMesh.
       if Flag psChunk = CHUNK_SMOOLIST then
         bindE (read_smoothing st (mFaces mMesh)) (\<lambda>(fs, st1).
           with_mesh (\<lambda>m. m\<lparr>mFaces := fs\<rparr>) st1)
       else if Flag psChunk = CHUNK_FACEMAT then
         bindE (scan_asciiz st pcCurNext (mCurrent st) 0) (\<lambda>(sz, cnt, overlaps).
         bindE (find_material st (mMaterials (mScene st)) 0) (\<lambda>found.
         bindE (peek_u16 st sz) (\<lambda>iCnt.
         bindE (assign_faces (unat iCnt)
                  (if 0xFFFFFFFF = found then 0xcdcdcdcd else found)
                  (mFaceMaterials mMesh) (st\<lparr>mCurrent := sz + 2\<rparr>)) (\<lambda>(fm, st1).
           with_mesh (\<lambda>m. m\<lparr>mFaceMaterials := fm\<rparr>) st1))))
       else Inr st))"

definition ParseFaceChunk ::
  "config \<Rightarrow> nat \<Rightarrow> importer \<Rightarrow> uint32_t \<Rightarrow> (error + importer) option" where
  "ParseFaceChunk cfg n st piRemaining =
     parse_chunks cfg ParseFaceChunk_switch n st piRemaining"

fun read_vertices ::
  "nat \<Rightarrow> importer \<Rightarrow> aiVector3D list \<Rightarrow> error + (aiVector3D list \<times> importer)" where
  "read_vertices 0 st vs = Inr (vs, st)"
| "read_vertices (Suc k) st vs =
     bindE (peek_vec3 st (mCurrent st)) (\<lambda>v.
       read_vertices k (advance 12 st) (vs @ [\<lparr>vx = vx v, vy = vz v, vz = vy v\<rparr>]))"

fun read_texcoords ::
  "nat \<Rightarrow> importer \<Rightarrow> aiVector2D list \<Rightarrow> error + (aiVector2D list \<times> importer)" where
  "read_texcoords 0 st vs = Inr (vs, st)"
| "read_texcoords (Suc k) st vs =
     bindE (peek_vec2 st (mCurrent st)) (\<lambda>v.
       read_texcoords k (advance 8 st) (vs @ [v]))"

fun read_faces ::
  "config \<Rightarrow> nat \<Rightarrow> importer \<Rightarrow> Face list \<Rightarrow> error + (Face list \<times> importer)" where
  "read_faces cfg 0 st fs = Inr (fs, st)"
| "read_faces cfg (Suc k) st fs =
     bindE (peek_u16 st (mCurrent st)) (\<lambda>i0.
     bindE (peek_u16 st (mCurrent st + 2)) (\<lambda>i1.
     bindE (peek_u16 st (mCurrent st + 4)) (\<lambda>i2.
       read_faces cfg k (advance 8 st)
         (fs @ [(new_Face cfg)\<lparr>mIndices := (ucast i0, ucast i1, ucast i2)\<rparr>]))))"

fun peek_floats :: "importer \<Rightarrow> int \<Rightarrow> nat \<Rightarrow> error + uint32_t list" where
  "peek_floats st p 0 = Inr []"
| "peek_floats st p (Suc k) =
     bindE (peek_u32 st p) (\<lambda>w.
     bindE (peek_floats st (p + 4) k) (\<lambda>ws. Inr (w # ws)))"

text \<open>\<open>v.resize(n, x)\<close>.\<close>

definition resize :: "nat \<Rightarrow> 'a \<Rightarrow> 'a list \<Rightarrow> 'a list" where
  "resize n v xs = take n xs @ replicate (n - length xs) v"

text \<open>
  The face list up to the call of \<open>ParseFaceChunk\<close>: the count, the faces, and the
  face-material array resized to the number of faces.
\<close>

definition read_face_list :: "config \<Rightarrow> Mesh \<Rightarrow> importer \<Rightarrow> error + importer" where
  "read_face_list cfg mMesh st =
     bindE (peek_u16 st (mCurrent st)) (\<lambda>iNum.
     bindE (read_faces cfg (unat iNum) (advance 2 st) (mFaces mMesh)) (\<lambda>(fs, st1).
       with_mesh
         (\<lambda>m. m\<lparr>mFaces := fs,
                 mFaceMaterials := resize (length fs) 0xcdcdcdcd (mFaceMaterials m)\<rparr>)
         st1))"

definition ParseMeshChunk_switch :: "config \<Rightarrow> handler" where
  "ParseMeshChunk_switch cfg n psChunk pcCurNext st =
     bindO (vec_back (mMeshes (mScene st))) (\<lambda>mMesh.
       if Flag psChunk = CHUNK_VERTLIST then Some (
         bindE (peek_u16 st (mCurrent st)) (\<lambda>iNum.
         bindE (read_vertices (unat iNum) (advance 2 st) (mPositions mMesh)) (\<lambda>(vs, st1).
           with_mesh (\<lambda>m. m\<lparr>mPositions := vs\<rparr>) st1)))
       else if Flag psChunk = CHUNK_TRMATRIX then Some (
         bindE (peek_floats st (mCurrent st) 12) (\<lambda>pf.
           with_mesh
             (\<lambda>m. m\<lparr>mMat := pf,
                     mPositions :=
                       (if Determinant_negative cfg pf
                        then map (flip_vertex cfg pf) (mPositions m)
                        else mPositions m)\<rparr>)
             (advance 48 st)))
       else if Flag psChunk = CHUNK_MAPLIST then Some (
         bindE (peek_u16 st (mCurrent st)) (\<lambda>iNum.
         bindE (read_texcoords (unat iNum) (advance 2 st) (mTexCoords mMesh)) (\<lambda>(vs, st1).
           with_mesh (\<lambda>m. m\<lparr>mTexCoords := vs\<rparr>) st1)))
       else if Flag psChunk = CHUNK_FACELIST then
         bindO (read_face_list cfg mMesh st)
           (\<lambda>st2.
              if sint (word_of_int (pcCurNext - mCurrent st2) :: uint32_t) > 0
              then ParseFaceChunk cfg n st2 (word_of_int (pcCurNext - mCurrent st2))
              else Some (Inr st2))
       else Some (Inr st))"

definition ParseMeshChunk ::
  "config \<Rightarrow> nat \<Rightarrow> importer \<Rightarrow> uint32_t \<Rightarrow> (error + importer) option" where
  "ParseMeshChunk cfg n st piRemaining =
     parse_chunks cfg (ParseMeshChunk_switch cfg) n st piRemaining"

subsection \<open>The node hierarchy and the keyframe tracks\<close>

definition get_node :: "importer \<Rightarrow> nat \<Rightarrow> error + Node" where
  "get_node st p =
     (if p < length (nodes st) then Inr (nodes st ! p)
      else Inl (UndefinedBehaviour NullPointer))"

definition deref :: "nat option \<Rightarrow> error + nat" where
  "deref p = (case p of None \<Rightarrow> Inl (UndefinedBehaviour NullPointer) | Some q \<Rightarrow> Inr q)"

definition with_node :: "nat \<Rightarrow> (Node \<Rightarrow> Node) \<Rightarrow> importer \<Rightarrow> error + importer" where
  "with_node p f st =
     bindE (get_node st p) (\<lambda>nd. Inr (st\<lparr>nodes := (nodes st)[p := f nd]\<rparr>))"

definition with_current_node :: "(Node \<Rightarrow> Node) \<Rightarrow> importer \<Rightarrow> error + importer" where
  "with_current_node f st = bindE (deref (mCurrentNode st)) (\<lambda>p. with_node p f st)"

text \<open>
  Modelled from the spec: \<open>Node::push_back\<close> is declared in 3DSHelper.h, which is not
  part of the source. The spec attaches a node as a child: the child is appended to the
  parent's ordered children and its parent back-reference is set.
\<close>

definition push_back :: "nat \<Rightarrow> nat \<Rightarrow> importer \<Rightarrow> error + importer" where
  "push_back this pc st =
     bindE (with_node this (\<lambda>nd. nd\<lparr>mChildren := mChildren nd @ [pc]\<rparr>) st) (\<lambda>st1.
       with_node pc (\<lambda>nd. nd\<lparr>mParent := Some this\<rparr>) st1)"

fun InverseNodeSearch ::
  "nat \<Rightarrow> nat \<Rightarrow> nat option \<Rightarrow> importer \<Rightarrow> (error + importer) option" where
  "InverseNodeSearch 0 pcNode pcCurrent st = None"
| "InverseNodeSearch (Suc n) pcNode None st =
     Some (bindE (deref (mRootNode st)) (\<lambda>root. push_back root pcNode st))"
| "InverseNodeSearch (Suc n) pcNode (Some cur) st =
     bindO (get_node st cur) (\<lambda>c.
     bindO (get_node st pcNode) (\<lambda>nd.
       if mHierarchyPos c = mHierarchyPos nd then
         Some (case mParent c of
                 Some parent \<Rightarrow> push_back parent pcNode st
               | None \<Rightarrow> push_back cur pcNode st)
       else InverseNodeSearch n pcNode (mParent c) st))"

text \<open>
  The case \<open>CHUNK_TRACKOBJNAME\<close>. \<open>iHierarchy\<close> is a \<open>uint16_t\<close>; the comparisons with
  the node's level and with \<open>mLastNodeIndex\<close> are made on integers.

  Modelled from the spec: the types of \<open>mHierarchyPos\<close>, \<open>mHierarchyIndex\<close> and
  \<open>mLastNodeIndex\<close> are declared in headers that are not part of the source. The spec
  gives the root a level below any real level, so the fields are integers that hold
  every 16-bit level and \<open>-1\<close>.
\<close>

definition new_node :: "config \<Rightarrow> byte list \<Rightarrow> uint16_t \<Rightarrow> importer \<Rightarrow> importer" where
  "new_node cfg name iHierarchy st =
     st\<lparr>nodes := nodes st @
          [(new_Node cfg)\<lparr>nodeName := name,
                           mHierarchyPos := uint iHierarchy,
                           mHierarchyIndex := mLastNodeIndex st\<rparr>]\<rparr>"

definition same_level :: "importer \<Rightarrow> uint16_t \<Rightarrow> error + bool" where
  "same_level st iHierarchy =
     (case mCurrentNode st of
        None \<Rightarrow> Inr False
      | Some cur \<Rightarrow> bindE (get_node st cur) (\<lambda>c. Inr (mHierarchyPos c = uint iHierarchy)))"

definition attach_node ::
  "nat \<Rightarrow> nat \<Rightarrow> uint16_t \<Rightarrow> importer \<Rightarrow> (error + importer) option" where
  "attach_node n pcNode iHierarchy st =
     bindO (same_level st iHierarchy) (\<lambda>same.
       if same then Some (
         bindE (deref (mCurrentNode st)) (\<lambda>cur.
         bindE (get_node st cur) (\<lambda>c.
         bindE (deref (mParent c)) (\<lambda>parent.
         bindE (push_back parent pcNode st) (\<lambda>st1.
           Inr (st1\<lparr>mLastNodeIndex := mLastNodeIndex st1 + 1\<rparr>))))))
       else if uint iHierarchy \<ge> mLastNodeIndex st then Some (
         bindE (deref (mCurrentNode st)) (\<lambda>cur.
         bindE (push_back cur pcNode st) (\<lambda>st1.
           Inr (st1\<lparr>mLastNodeIndex := uint iHierarchy\<rparr>))))
       else
         thenO (InverseNodeSearch n pcNode (mCurrentNode st) st) (\<lambda>st1.
           Some (Inr (st1\<lparr>mLastNodeIndex := mLastNodeIndex st1 + 1\<rparr>))))"

definition track_object_name ::
  "config \<Rightarrow> nat \<Rightarrow> int \<Rightarrow> importer \<Rightarrow> (error + importer) option" where
  "track_object_name cfg n pcCurNext st =
     bindO (scan_asciiz st pcCurNext (mCurrent st) 0) (\<lambda>(sz, iCnt, overlaps).
     bindO (peek_bytes st (mCurrent st) iCnt) (\<lambda>name.
     bindO (peek_u16 st (mCurrent st + int (iCnt + 1) + 4)) (\<lambda>raw.
       thenO (attach_node n (length (nodes st)) (raw + 1)
                (new_node cfg name (raw + 1) (advance (int (iCnt + 1) + 4) st)))
         (\<lambda>st1. Some (Inr (st1\<lparr>mCurrentNode := Some (length (nodes st))\<rparr>))))))"

text \<open>
  The key loops of the three track chunks. A key whose frame number is already in the
  track is not added (the source marks it with a time no frame number has).
\<close>

definition add_key :: "uint16_t \<times> 'a \<Rightarrow> (uint16_t \<times> 'a) list \<Rightarrow> (uint16_t \<times> 'a) list" where
  "add_key v keys = (if fst v \<in> set (map fst keys) then keys else keys @ [v])"

fun read_position_keys :: "nat \<Rightarrow> importer \<Rightarrow> error + importer" where
  "read_position_keys 0 st = Inr st"
| "read_position_keys (Suc k) st =
     bindE (peek_u16 st (mCurrent st)) (\<lambda>sNum.
     bindE (peek_vec3 st (mCurrent st + 6)) (\<lambda>v.
     bindE (with_current_node
              (\<lambda>nd. nd\<lparr>aPositionKeys := add_key (sNum, v) (aPositionKeys nd)\<rparr>)
              (advance 18 st)) (\<lambda>st1.
       read_position_keys k st1)))"

fun read_rotation_keys :: "nat \<Rightarrow> importer \<Rightarrow> error + importer" where
  "read_rotation_keys 0 st = Inr st"
| "read_rotation_keys (Suc k) st =
     bindE (peek_u16 st (mCurrent st)) (\<lambda>sNum.
     bindE (peek_u32 st (mCurrent st + 6)) (\<lambda>fRadians.
     bindE (peek_vec3 st (mCurrent st + 10)) (\<lambda>vAxis.
     bindE (with_current_node
              (\<lambda>nd. nd\<lparr>aRotationKeys :=
                         add_key (sNum, Quaternion_axis_angle vAxis fRadians) (aRotationKeys nd)\<rparr>)
              (advance 22 st)) (\<lambda>st1.
       read_rotation_keys k st1))))"

text \<open>
  The scaling loop also counts, in \<open>iCnt\<close>, the keys for which
  \<open>v.mValue.x && v.mValue.y && v.mValue.z\<close> holds, and logs a warning for each.
\<close>

fun read_scaling_keys :: "nat \<Rightarrow> nat \<Rightarrow> importer \<Rightarrow> error + (nat \<times> importer)" where
  "read_scaling_keys 0 iCnt st = Inr (iCnt, st)"
| "read_scaling_keys (Suc k) iCnt st =
     bindE (peek_u16 st (mCurrent st)) (\<lambda>sNum.
     bindE (peek_vec3 st (mCurrent st + 6)) (\<lambda>v.
     bindE (with_current_node
              (\<lambda>nd. nd\<lparr>aScalingKeys := add_key (sNum, v) (aScalingKeys nd)\<rparr>)
              (advance 18 st)) (\<lambda>st1.
       if raw_nonzero (vx v) \<and> raw_nonzero (vy v) \<and> raw_nonzero (vz v)
       then read_scaling_keys k (iCnt + 1)
              (log_add (LogWarn ''Found zero scaled axis in scaling keyframe'') st1)
       else read_scaling_keys k iCnt st1)))"

definition ParseHierarchyChunk_switch :: "config \<Rightarrow> handler" where
  "ParseHierarchyChunk_switch cfg n psChunk pcCurNext st =
     (if Flag psChunk = CHUNK_TRACKOBJNAME then track_object_name cfg n pcCurNext st
      else if Flag psChunk = CHUNK_TRACKPIVOT then Some (
        bindE (peek_vec3 st (mCurrent st)) (\<lambda>v.
        bindE (with_current_node (\<lambda>nd. nd\<lparr>vPivot := \<lparr>vx = vx v, vy = vz v, vz = vy v\<rparr>\<rparr>) st)
          (\<lambda>st1. Inr (advance 12 st1))))
      else if AI_3DS_KEYFRAME_ANIMATION cfg \<and> Flag psChunk = CHUNK_TRACKPOS then Some (
        bindE (peek_u16 st (mCurrent st + 10)) (\<lambda>iTemp.
          read_position_keys (unat iTemp) (advance 14 st)))
      else if AI_3DS_KEYFRAME_ANIMATION cfg \<and> Flag psChunk = CHUNK_TRACKROTATE then Some (
        bindE (peek_u16 st (mCurrent st + 10)) (\<lambda>iTemp.
          read_rotation_keys (unat iTemp) (advance 14 st)))
      else if AI_3DS_KEYFRAME_ANIMATION cfg \<and> Flag psChunk = CHUNK_TRACKSCALE then Some (
        bindE (peek_u16 st (mCurrent st + 10)) (\<lambda>iTemp.
        bindE (read_scaling_keys (unat iTemp) 0 (advance 14 st)) (\<lambda>(iCnt, st1).
          if unat iTemp = iCnt then
            with_current_node (\<lambda>nd. nd\<lparr>aScalingKeys := []\<rparr>)
              (log_add (LogWarn ''All scaling keys are zero. They will be removed'') st1)
          else Inr st1)))
      else Some (Inr st))"

definition ParseHierarchyChunk ::
  "config \<Rightarrow> nat \<Rightarrow> importer \<Rightarrow> uint32_t \<Rightarrow> (error + importer) option" where
  "ParseHierarchyChunk cfg n st piRemaining =
     parse_chunks cfg (ParseHierarchyChunk_switch cfg) n st piRemaining"

definition ParseKeyframeChunk_switch :: "config \<Rightarrow> handler" where
  "ParseKeyframeChunk_switch cfg n psChunk pcCurNext st =
     (if Flag psChunk = CHUNK_TRACKINFO
      then ParseHierarchyChunk cfg n st (Size psChunk - 6)
      else Some (Inr st))"

definition ParseKeyframeChunk ::
  "config \<Rightarrow> nat \<Rightarrow> importer \<Rightarrow> uint32_t \<Rightarrow> (error + importer) option" where
  "ParseKeyframeChunk cfg n st piRemaining =
     parse_chunks cfg (ParseKeyframeChunk_switch cfg) n st piRemaining"

subsection \<open>The upper containers\<close>

definition ParseChunk_switch :: "config \<Rightarrow> handler" where
  "ParseChunk_switch cfg n psChunk pcCurNext st =
     (if Flag psChunk = CHUNK_TRIMESH
      then ParseMeshChunk cfg n st (Size psChunk - 6)
      else Some (Inr st))"

definition ParseChunk ::
  "config \<Rightarrow> nat \<Rightarrow> importer \<Rightarrow> uint32_t \<Rightarrow> (error + importer) option" where
  "ParseChunk cfg n st piRemaining =
     parse_chunks cfg (ParseChunk_switch cfg) n st piRemaining"

text \<open>
  The object block up to the call of \<open>ParseChunk\<close>: the name is scanned and counted,
  a mesh of that name is appended, and the cursor moves past the name and its
  terminator. The material block up to the call of \<open>ParseMaterialChunk\<close>: a material
  is appended.
\<close>

definition object_block :: "config \<Rightarrow> int \<Rightarrow> importer \<Rightarrow> error + nat \<times> importer" where
  "object_block cfg pcCurNext st =
     bindE (scan_asciiz st pcCurNext (mCurrent st) 0) (\<lambda>(sz, iCnt, overlaps).
     bindE (peek_bytes st (mCurrent st) iCnt) (\<lambda>name.
       Inr (iCnt,
            (advance (int (iCnt + 1)) st)
              \<lparr>mScene := (mScene st)
                 \<lparr>mMeshes := mMeshes (mScene st) @ [(new_Mesh cfg)\<lparr>meshName := name\<rparr>]\<rparr>\<rparr>)))"

definition material_block :: "config \<Rightarrow> importer \<Rightarrow> importer" where
  "material_block cfg st =
     st\<lparr>mScene := (mScene st)\<lparr>mMaterials := mMaterials (mScene st) @ [new_Material cfg]\<rparr>\<rparr>"

definition ParseObjectChunk_switch :: "config \<Rightarrow> handler" where
  "ParseObjectChunk_switch cfg n psChunk pcCurNext st =
     (if Flag psChunk = CHUNK_OBJBLOCK then
        bindO (object_block cfg pcCurNext st) (\<lambda>(iCnt, st1).
          ParseChunk cfg n st1 (Size psChunk - 6 - of_nat (iCnt + 1)))
      else if Flag psChunk = CHUNK_MAT_MATERIAL then
        ParseMaterialChunk cfg n (material_block cfg st) (Size psChunk - 6)
      else if Flag psChunk = CHUNK_AMBCOLOR then Some (
        bindE (ParseColorChunk True st) (\<lambda>(clr, st1).
          Inr (st1\<lparr>mClrAmbient :=
                    (if is_qnan cfg (cr clr) then \<lparr>cr = f_zero, cg = f_zero, cb = f_zero\<rparr>
                     else clr)\<rparr>)))
      else if Flag psChunk = CHUNK_BIT_MAP then Some (
        bindE (peek_cstring st (mCurrent st)) (\<lambda>s. Inr (st\<lparr>mBackgroundImage := s\<rparr>)))
      else if Flag psChunk = CHUNK_BIT_MAP_EXISTS then Some (Inr (st\<lparr>bHasBG := True\<rparr>))
      else if Flag psChunk = CHUNK_MASTER_SCALE then Some (
        bindE (peek_u32 st (mCurrent st)) (\<lambda>w.
          Inr (advance 4 (st\<lparr>mMasterScale := Raw w\<rparr>))))
      else if Flag psChunk = CHUNK_KEYFRAMER then
        ParseKeyframeChunk cfg n st (Size psChunk - 6)
      else Some (Inr st))"

definition ParseObjectChunk ::
  "config \<Rightarrow> nat \<Rightarrow> importer \<Rightarrow> uint32_t \<Rightarrow> (error + importer) option" where
  "ParseObjectChunk cfg n st piRemaining =
     parse_chunks cfg (ParseObjectChunk_switch cfg) n st piRemaining"

definition ParseEditorChunk_switch :: "config \<Rightarrow> handler" where
  "ParseEditorChunk_switch cfg n psChunk pcCurNext st =
     (if Flag psChunk = CHUNK_OBJMESH then
        ParseObjectChunk cfg n st (Size psChunk - 6)
      else if Flag psChunk = CHUNK_KEYFRAMER then
        ParseKeyframeChunk cfg n st (Size psChunk - 6)
      else if Flag psChunk = CHUNK_VERSION then Some (
        if uint (Size psChunk) \<ge> 2 + sizeof_Chunk then
          bindE (peek_u16 st (mCurrent st)) (\<lambda>v. Inr (log_add (LogVersion v) st))
        else Inr (log_add (LogWarn ''Invalid version chunk in 3DS file'') st))
      else Some (Inr st))"

definition ParseEditorChunk ::
  "config \<Rightarrow> nat \<Rightarrow> importer \<Rightarrow> uint32_t \<Rightarrow> (error + importer) option" where
  "ParseEditorChunk cfg n st piRemaining =
     parse_chunks cfg (ParseEditorChunk_switch cfg) n st piRemaining"

definition ParseMainChunk_switch :: "config \<Rightarrow> handler" where
  "ParseMainChunk_switch cfg n psChunk pcCurNext st =
     (if Flag psChunk = CHUNK_MAIN
      then ParseEditorChunk cfg n st (Size psChunk - 6)
      else Some (Inr st))"

definition ParseMainChunk ::
  "config \<Rightarrow> nat \<Rightarrow> importer \<Rightarrow> uint32_t \<Rightarrow> (error + importer) option" where
  "ParseMainChunk cfg n st piRemaining =
     parse_chunks cfg (ParseMainChunk_switch cfg) n st piRemaining"

definition SkipChunk :: "importer \<Rightarrow> error + importer" where
  "SkipChunk st =
     bindE (ReadChunk st) (\<lambda>(psChunk, st1).
       case psChunk of
         None \<Rightarrow> Inl (UndefinedBehaviour NullPointer)
       | Some c \<Rightarrow> Inr (advance (uint (Size c) - sizeof_Chunk) st1))"

subsection \<open>The entry point\<close>

text \<open>
  \<open>InternReadFile\<close> on the importer object \<open>this\<close>, for a file name and what the IO
  system finds under it: no stream, or the file's bytes. \<open>begin_state\<close> is the importer
  after lines 151 to 166, \<open>InternReadFile_parse\<close> the function up to the return of
  \<open>ParseMainChunk\<close> (lines 138 to 170).
\<close>

definition msg_too_small :: string where
  "msg_too_small = ''3DS File is too small.''"

definition msg_failed_to_open :: "string \<Rightarrow> string" where
  "msg_failed_to_open pFile = ''Failed to open 3DS file '' @ pFile @ ''.''"

definition begin_state :: "config \<Rightarrow> importer \<Rightarrow> byte list \<Rightarrow> importer" where
  "begin_state cfg this bytes =
     this\<lparr>mScene := \<lparr>mMeshes = [], mMaterials = []\<rparr>,
          mBuffer := bytes,
          mCurrent := 0,
          mLastNodeIndex := - 1,
          nodes := [(new_Node cfg)\<lparr>mHierarchyPos := - 1,
                                   mHierarchyIndex := - 1,
                                   mParent := None\<rparr>],
          mCurrentNode := Some 0,
          mRootNode := Some 0,
          mMasterScale := f_one,
          mBackgroundImage := [],
          bHasBG := False\<rparr>"

definition InternReadFile_parse ::
  "config \<Rightarrow> nat \<Rightarrow> importer \<Rightarrow> string \<Rightarrow> byte list option \<Rightarrow> (error + importer) option" where
  "InternReadFile_parse cfg n this pFile file =
     (case file of
        None \<Rightarrow> Some (Inl (ImportErrorException (msg_failed_to_open pFile)))
      | Some bytes \<Rightarrow>
          if length bytes < 16 then Some (Inl (ImportErrorException msg_too_small))
          else ParseMainChunk cfg n (begin_state cfg this bytes) (of_nat (length bytes)))"

text \<open>
  The functions that \<open>InternReadFile\<close> calls after \<open>ParseMainChunk\<close> (lines 172 to 199)
  are defined outside the source file. What they do to a mesh, to the materials, to
  the importer and to the output scene \<open>pScene\<close>, a value of a type \<open>'s\<close>, is left
  open: each of them is a parameter, and each may raise an exception. \<open>scale_root\<close> is
  the product of \<open>pScene->mRootNode->mTransformation\<close> with the uniform scaling matrix
  of \<open>ApplyMasterScale\<close> (aiScene.h, aiMatrix4x4.inl).
\<close>

record 's converter =
  CheckIndices :: "Mesh \<Rightarrow> error + Mesh"
  MakeUnique :: "Mesh \<Rightarrow> error + Mesh"
  ComputeNormalsWithSmoothingsGroups :: "Mesh \<Rightarrow> error + Mesh"
  ApplyScaleNOffset :: "Material list \<Rightarrow> error + Material list"
  ReplaceDefaultMaterial :: "importer \<Rightarrow> error + importer"
  ConvertScene :: "importer \<Rightarrow> 's \<Rightarrow> error + importer \<times> 's"
  GenerateNodeGraph :: "importer \<Rightarrow> 's \<Rightarrow> error + importer \<times> 's"
  scale_root :: "float32 \<Rightarrow> 's \<Rightarrow> error + 's"

text \<open>The loop over the meshes, lines 174 to 184.\<close>

fun unique_meshes :: "'s converter \<Rightarrow> Mesh list \<Rightarrow> error + Mesh list" where
  "unique_meshes conv [] = Inr []"
| "unique_meshes conv (i # is) =
     bindE (CheckIndices conv i) (\<lambda>i1.
     bindE (MakeUnique conv i1) (\<lambda>i2.
     bindE (ComputeNormalsWithSmoothingsGroups conv i2) (\<lambda>i3.
     bindE (unique_meshes conv is) (\<lambda>is'. Inr (i3 # is')))))"

definition ApplyMasterScale :: "'s converter \<Rightarrow> importer \<Rightarrow> 's \<Rightarrow> error + importer \<times> 's" where
  "ApplyMasterScale conv st pScene =
     (let st1 = st\<lparr>mMasterScale :=
                     (if \<not> nonzero (mMasterScale st) then f_one
                      else FDiv f_one (mMasterScale st))\<rparr>
      in bindE (scale_root conv (mMasterScale st1) pScene) (\<lambda>pScene'. Inr (st1, pScene')))"

text \<open>Lines 172 to 202: what \<open>InternReadFile\<close> does once \<open>ParseMainChunk\<close> has returned.\<close>

definition after_parse :: "'s converter \<Rightarrow> importer \<Rightarrow> 's \<Rightarrow> error + importer \<times> 's" where
  "after_parse conv st pScene =
     bindE (unique_meshes conv (mMeshes (mScene st))) (\<lambda>meshes.
     bindE (ApplyScaleNOffset conv (mMaterials (mScene st))) (\<lambda>materials.
     bindE (ReplaceDefaultMaterial conv
              (st\<lparr>mScene := \<lparr>mMeshes = meshes, mMaterials = materials\<rparr>\<rparr>)) (\<lambda>st1.
     bindE (ConvertScene conv st1 pScene) (\<lambda>(st2, pScene1).
     bindE (GenerateNodeGraph conv st2 pScene1) (\<lambda>(st3, pScene2).
       ApplyMasterScale conv st3 pScene2)))))"

definition InternReadFile ::
  "'s converter \<Rightarrow> config \<Rightarrow> nat \<Rightarrow> importer \<Rightarrow> string \<Rightarrow> byte list option \<Rightarrow> 's \<Rightarrow>
   (error + importer \<times> 's) option" where
  "InternReadFile conv cfg n this pFile file pScene =
     thenO (InternReadFile_parse cfg n this pFile file) (\<lambda>st.
       Some (after_parse conv st pScene))"

subsection \<open>A concrete configuration\<close>

text \<open>
  For running the model on concrete files: a release build with the keyframe tracks
  compiled in, objects whose vectors and names start empty, and the sentinel test of
  a float that is the not-a-number constant itself or a file float with its bits.
\<close>

definition zero_vec :: aiVector3D where
  "zero_vec = \<lparr>vx = 0, vy = 0, vz = 0\<rparr>"

definition black :: aiColor3D where
  "black = \<lparr>cr = f_zero, cg = f_zero, cb = f_zero\<rparr>"

definition Texture0 :: Texture where
  "Texture0 = \<lparr>mMapName = [], mTextureBlend = f_one, mScaleU = f_one, mScaleV = f_one,
     mOffsetU = f_zero, mOffsetV = f_zero, mRotation = f_zero, mMapMode = MapMode_default\<rparr>"

definition Material0 :: Material where
  "Material0 = \<lparr>mName = [], mDiffuse = black, mSpecular = black, mAmbient = black,
     mEmissive = black, mTransparency = f_one, mShading = 0, mTwoSided = False,
     mSpecularExponent = f_zero, mShininessStrength = f_one, sTexDiffuse = Texture0,
     sTexBump = Texture0, sTexOpacity = Texture0, sTexShininess = Texture0,
     sTexSpecular = Texture0, sTexEmissive = Texture0\<rparr>"

definition Mesh0 :: Mesh where
  "Mesh0 = \<lparr>meshName = [], mMat = [], mPositions = [], mTexCoords = [], mFaces = [],
     mFaceMaterials = []\<rparr>"

definition Node0 :: Node where
  "Node0 = \<lparr>mParent = None, mChildren = [], nodeName = [], mHierarchyPos = 0,
     mHierarchyIndex = 0, vPivot = zero_vec, aPositionKeys = [], aRotationKeys = [],
     aScalingKeys = []\<rparr>"

text \<open>
  Modelled from the spec: \<open>Determinant\<close>, \<open>Inverse\<close> and the product of two matrices
  are defined in aiMatrix4x4.inl, which is not part of the source. The spec asks for the
  vertices of a mesh to be re-expressed when the determinant of its transform is
  negative. The determinant is taken here of the exact values of the nine floats of
  the linear part (\<open>a1 = pf[0]\<close>, \<open>b1 = pf[1]\<close>, \<open>c1 = pf[2]\<close>, \<open>a2 = pf[3]\<close>, ...); a
  matrix with an infinite or not-a-number entry counts as not negative. The matrix
  that the vertices go through is the inverse of the transform times the transform
  with its first column negated, which in exact arithmetic is the diagonal matrix
  \<open>(-1, 1, 1, 1)\<close>: the loop of lines 790 to 797 then negates \<open>x\<close>.
\<close>

definition exact :: "uint32_t \<Rightarrow> int option" where
  "exact w =
     (let E = uint (drop_bit 23 w AND 0xFF); f = uint (w AND 0x7FFFFF)
      in if E = 255 then None
         else Some ((if bit w 31 then - 1 else 1) *
                    (if E = 0 then f else (2 ^ 23 + f) * 2 ^ nat (E - 1))))"

definition determinant_negative :: "uint32_t list \<Rightarrow> bool" where
  "determinant_negative pf =
     (case those (map exact (take 9 pf)) of
        Some [a1, b1, c1, a2, b2, c2, a3, b3, c3] \<Rightarrow>
          a1 * (b2 * c3 - b3 * c2) - a2 * (b1 * c3 - b3 * c1) + a3 * (b1 * c2 - b2 * c1) < 0
      | _ \<Rightarrow> False)"

definition negate_x :: "aiVector3D \<Rightarrow> aiVector3D" where
  "negate_x v = v\<lparr>vx := vx v XOR 0x80000000\<rparr>"

definition release :: config where
  "release = \<lparr>DEBUG = False, AI_3DS_KEYFRAME_ANIMATION = True,
     is_qnan = (\<lambda>f. f = quiet_NaN \<or> f = Raw 0x7FC00000),
     Determinant_negative = determinant_negative,
     flip_vertex = (\<lambda>m. negate_x),
     new_Face = \<lparr>mIndices = (0, 0, 0), iSmoothGroup = 0\<rparr>,
     new_Mesh = Mesh0, new_Material = Material0, new_Node = Node0\<rparr>"

definition debug :: config where
  "debug = release\<lparr>DEBUG := True\<rparr>"

definition importer0 :: importer where
  "importer0 = \<lparr>mBuffer = [], mCurrent = 0, mScene = \<lparr>mMeshes = [], mMaterials = []\<rparr>,
     nodes = [], mRootNode = None, mCurrentNode = None, mLastNodeIndex = 0,
     mMasterScale = f_one, mBackgroundImage = [], bHasBG = False, mClrAmbient = black,
     logger = []\<rparr>"

section \<open>Files and states to run the model on\<close>

definition le16 :: "uint16_t \<Rightarrow> byte list" where
  "le16 w = [ucast w, ucast (drop_bit 8 w)]"

definition le32 :: "uint32_t \<Rightarrow> byte list" where
  "le32 w = [ucast w, ucast (drop_bit 8 w), ucast (drop_bit 16 w), ucast (drop_bit 24 w)]"

text \<open>A chunk whose declared size is its true size.\<close>

definition chunk :: "uint16_t \<Rightarrow> byte list \<Rightarrow> byte list" where
  "chunk tag payload = le16 tag @ le32 (of_nat (6 + length payload)) @ payload"

definition bytes_of :: "string \<Rightarrow> byte list" where
  "bytes_of s = map (\<lambda>c. of_char c) s"

definition track_object :: "string \<Rightarrow> uint16_t \<Rightarrow> byte list" where
  "track_object name level =
     chunk CHUNK_TRACKOBJNAME (bytes_of name @ [0] @ [0, 0, 0, 0] @ le16 level)"

definition scale_key :: "uint16_t \<Rightarrow> aiVector3D \<Rightarrow> byte list" where
  "scale_key frame v = le16 frame @ [0, 0, 0, 0] @ le32 (vx v) @ le32 (vy v) @ le32 (vz v)"

definition track_scale :: "byte list list \<Rightarrow> byte list" where
  "track_scale keys =
     chunk CHUNK_TRACKSCALE
       (replicate 10 0 @ le16 (of_nat (length keys)) @ [0, 0] @ concat keys)"

definition keyframe_file :: "byte list \<Rightarrow> byte list" where
  "keyframe_file tracks =
     chunk CHUNK_MAIN (chunk CHUNK_KEYFRAMER (chunk CHUNK_TRACKINFO tracks))"

text \<open>The importer that \<open>ParseMainChunk\<close> leaves for a file, or the exception of the run.\<close>

definition decode :: "config \<Rightarrow> byte list \<Rightarrow> (error + importer) option" where
  "decode cfg file = InternReadFile_parse cfg 12 importer0 ''scene.3ds'' (Some file)"

text \<open>What to look at in the state a run ends with.\<close>

definition view :: "(importer \<Rightarrow> 'a) \<Rightarrow> (error + importer) option \<Rightarrow> (error + 'a) option" where
  "view f r = map_option (map_sum id f) r"

definition tree :: "importer \<Rightarrow> (byte list \<times> nat option \<times> nat list) list" where
  "tree st = map (\<lambda>nd. (nodeName nd, mParent nd, mChildren nd)) (nodes st)"

definition levels :: "importer \<Rightarrow> int list \<times> nat option \<times> int" where
  "levels st = (map mHierarchyPos (nodes st), mCurrentNode st, mLastNodeIndex st)"

definition scaling :: "importer \<Rightarrow> (uint16_t \<times> aiVector3D) list" where
  "scaling st = aScalingKeys (last (nodes st))"

definition cursor_and_log :: "importer \<Rightarrow> int \<times> log_entry list" where
  "cursor_and_log st = (mCurrent st, logger st)"

definition face_materials :: "importer \<Rightarrow> uint32_t list" where
  "face_materials st = mFaceMaterials (last (mMeshes (mScene st)))"

text \<open>A buffer of three bytes, and the empty buffer of \<open>importer0\<close>.\<close>

definition three_bytes :: importer where
  "three_bytes = importer0\<lparr>mBuffer := [1, 2, 3]\<rparr>"

text \<open>The hierarchy track of C2, and its first two and first three nodes.\<close>

definition file_ABCD :: "byte list" where
  "file_ABCD = keyframe_file
     (track_object ''A'' 0 @ track_object ''B'' 1 @ track_object ''C'' 1 @ track_object ''D'' 0)"

definition file_AB :: "byte list" where
  "file_AB = keyframe_file (track_object ''A'' 0 @ track_object ''B'' 1)"

definition file_ABC :: "byte list" where
  "file_ABC = keyframe_file (track_object ''A'' 0 @ track_object ''B'' 1 @ track_object ''C'' 1)"

text \<open>
  A background-image name \<open>ab\<close> with no terminator inside its chunk; the next chunk
  follows it directly.
\<close>

definition file_unterminated_bitmap :: "byte list" where
  "file_unterminated_bitmap =
     chunk CHUNK_MAIN (chunk CHUNK_OBJMESH
       (chunk CHUNK_BIT_MAP (bytes_of ''ab'') @ chunk CHUNK_BIT_MAP_EXISTS []))"

text \<open>Scaling tracks of two keys: both \<open>(0, 0, 0)\<close>, and both \<open>(1.0f, 1.0f, 1.0f)\<close>.\<close>

definition ones :: aiVector3D where
  "ones = \<lparr>vx = 0x3F800000, vy = 0x3F800000, vz = 0x3F800000\<rparr>"

definition file_zero_scaling :: "byte list" where
  "file_zero_scaling =
     keyframe_file (track_object ''A'' 0 @ track_scale [scale_key 0 zero_vec, scale_key 1 zero_vec])"

definition file_unit_scaling :: "byte list" where
  "file_unit_scaling =
     keyframe_file (track_object ''A'' 0 @ track_scale [scale_key 0 ones, scale_key 1 ones])"

text \<open>
  Sixteen bytes: a chunk of an unknown tag with four bytes of payload, then a main chunk
  with no payload. Every declared size is the true size.
\<close>

definition file_empty_main :: "byte list" where
  "file_empty_main = chunk 0x0001 [0, 0, 0, 0] @ chunk CHUNK_MAIN []"

text \<open>
  A master-scale chunk that declares no payload: its handler reads four bytes all the
  same and leaves the cursor four bytes past the chunk's end. \<open>at_master_scale\<close> is the
  importer in front of that chunk.
\<close>

definition file_short_master_scale :: "byte list" where
  "file_short_master_scale =
     chunk CHUNK_MAIN (chunk CHUNK_OBJMESH (chunk CHUNK_MASTER_SCALE [])) @ chunk 0x7777 []"

definition at_master_scale :: importer where
  "at_master_scale = importer0\<lparr>mBuffer := file_short_master_scale, mCurrent := 12\<rparr>"

text \<open>
  A main chunk that declares twelve bytes (its end is offset 12) around a version chunk
  that declares eight (its end is offset 14); the version number \<open>0x1234\<close> is at
  offsets 12 and 13. \<open>in_main\<close> is the importer behind the main chunk's header.
\<close>

definition file_overlong_child :: "byte list" where
  "file_overlong_child =
     le16 CHUNK_MAIN @ le32 12 @ le16 CHUNK_VERSION @ le32 8 @ chunk 0x1234 []"

definition in_main :: importer where
  "in_main = importer0\<lparr>mBuffer := file_overlong_child, mCurrent := 6\<rparr>"

text \<open>
  The payload of a face-material chunk: the name \<open>x\<close>, two face indices, 0 and 5. The
  scene has one material, \<open>y\<close>, and one mesh; \<open>facemat_state\<close> has three faces in it,
  \<open>facemat_no_faces\<close> none.
\<close>

definition facemat_payload :: "byte list" where
  "facemat_payload = bytes_of ''x'' @ [0] @ le16 2 @ le16 0 @ le16 5"

definition facemat_chunk :: Chunk where
  "facemat_chunk = \<lparr>Flag = CHUNK_FACEMAT, Size = 14\<rparr>"

definition facemat_mesh :: Mesh where
  "facemat_mesh = Mesh0\<lparr>mFaceMaterials := [7, 7, 7]\<rparr>"

definition facemat_state :: importer where
  "facemat_state = importer0
     \<lparr>mBuffer := facemat_payload,
      mScene := \<lparr>mMeshes = [facemat_mesh], mMaterials = [Material0\<lparr>mName := bytes_of ''y''\<rparr>]\<rparr>\<rparr>"

definition facemat_no_faces :: importer where
  "facemat_no_faces = importer0
     \<lparr>mBuffer := facemat_payload,
      mScene := \<lparr>mMeshes = [Mesh0], mMaterials = [Material0\<lparr>mName := bytes_of ''y''\<rparr>]\<rparr>\<rparr>"

text \<open>A colour chunk with the payload \<open>(200, 100, 50)\<close>, plain and linear.\<close>

definition rgb_bytes :: importer where
  "rgb_bytes = importer0\<lparr>mBuffer := chunk CHUNK_RGBB [200, 100, 50]\<rparr>"

definition lin_rgb_bytes :: importer where
  "lin_rgb_bytes = importer0\<lparr>mBuffer := chunk CHUNK_LINRGBB [200, 100, 50]\<rparr>"

text \<open>
  Sixteen bytes that begin with a chunk of declared size zero, and the importer as
  \<open>InternReadFile\<close> sets it up for them.
\<close>

definition file_zero_size :: "byte list" where
  "file_zero_size = le16 0x7777 @ le32 0 @ replicate 10 0"

definition at_zero_size :: importer where
  "at_zero_size = importer0
     \<lparr>mBuffer := file_zero_size,
      nodes := [Node0\<lparr>mHierarchyPos := - 1, mHierarchyIndex := - 1\<rparr>],
      mRootNode := Some 0, mCurrentNode := Some 0, mLastNodeIndex := - 1\<rparr>"

text \<open>
  The value stored in the last material at the end of a run, a material block whose
  shininess strength is the float \<open>0.75\<close> (\<open>0x3F400000\<close>), and the state of a material
  handler in front of that percentage chunk.
\<close>

definition stored :: "(Material \<Rightarrow> 'a) \<Rightarrow> (error + importer) option \<Rightarrow> 'a option" where
  "stored field r =
     (case r of
        Some (Inr st) \<Rightarrow>
          if mMaterials (mScene st) = [] then None
          else Some (field (last (mMaterials (mScene st))))
      | _ \<Rightarrow> None)"

definition file_shininess_strength :: "byte list" where
  "file_shininess_strength =
     chunk CHUNK_MAIN (chunk CHUNK_OBJMESH (chunk CHUNK_MAT_MATERIAL
       (chunk CHUNK_MAT_SHININESS_PERCENT (chunk CHUNK_PERCENTF (le32 0x3F400000)))))"

definition at_percentage :: importer where
  "at_percentage = importer0
     \<lparr>mBuffer := chunk CHUNK_PERCENTF (le32 0x3F400000),
      mScene := \<lparr>mMeshes = [], mMaterials = [Material0]\<rparr>\<rparr>"

text \<open>
  Conversion steps that change nothing and raise nothing, for a run of the whole of
  \<open>InternReadFile\<close>; the output scene is the unit value.
\<close>

definition no_conversion :: "unit converter" where
  "no_conversion =
     \<lparr>CheckIndices = Inr, MakeUnique = Inr, ComputeNormalsWithSmoothingsGroups = Inr,
      ApplyScaleNOffset = Inr, ReplaceDefaultMaterial = Inr,
      ConvertScene = (\<lambda>st pScene. Inr (st, pScene)),
      GenerateNodeGraph = (\<lambda>st pScene. Inr (st, pScene)),
      scale_root = (\<lambda>f pScene. Inr pScene)\<rparr>"

text \<open>Sixteen bytes whose first header declares seventeen.\<close>

definition file_declares_too_much :: "byte list" where
  "file_declares_too_much = le16 CHUNK_MAIN @ le32 17 @ replicate 10 0"

text \<open>
  An object with a face list followed by a face-material chunk for the name \<open>x\<close>, in a
  file without materials. \<open>file_one_face\<close> has one face and lists face 0;
  \<open>file_no_faces\<close> has no face and lists face 0; \<open>file_count_past_the_end\<close> has one
  face and announces three face indices where the file holds one.
\<close>

definition file_no_faces :: "byte list" where
  "file_no_faces =
     chunk CHUNK_MAIN (chunk CHUNK_OBJMESH (chunk CHUNK_OBJBLOCK
       (bytes_of ''m'' @ [0] @
        chunk CHUNK_TRIMESH (chunk CHUNK_FACELIST
          (le16 0 @ chunk CHUNK_FACEMAT (bytes_of ''x'' @ [0] @ le16 1 @ le16 0))))))"

definition file_one_face :: "byte list" where
  "file_one_face =
     chunk CHUNK_MAIN (chunk CHUNK_OBJMESH (chunk CHUNK_OBJBLOCK
       (bytes_of ''m'' @ [0] @
        chunk CHUNK_TRIMESH (chunk CHUNK_FACELIST
          (le16 1 @ le16 0 @ le16 1 @ le16 2 @ le16 0 @
           chunk CHUNK_FACEMAT (bytes_of ''x'' @ [0] @ le16 1 @ le16 0))))))"

definition file_count_past_the_end :: "byte list" where
  "file_count_past_the_end =
     chunk CHUNK_MAIN (chunk CHUNK_OBJMESH (chunk CHUNK_OBJBLOCK
       (bytes_of ''m'' @ [0] @
        chunk CHUNK_TRIMESH (chunk CHUNK_FACELIST
          (le16 1 @ le16 0 @ le16 1 @ le16 2 @ le16 0 @
           chunk CHUNK_FACEMAT (bytes_of ''x'' @ [0] @ le16 3 @ le16 0))))))"


section \<open>The exceptions a result can carry\<close>

definition ok_error :: "string set \<Rightarrow> error \<Rightarrow> bool" where
  "ok_error S e =
     (case e of ImportErrorException m \<Rightarrow> m \<in> S | UndefinedBehaviour u \<Rightarrow> True)"

definition throws_in :: "string set \<Rightarrow> error + 'a \<Rightarrow> bool" where
  "throws_in S r = (case r of Inl e \<Rightarrow> ok_error S e | Inr v \<Rightarrow> True)"

definition throws_in_opt :: "string set \<Rightarrow> (error + 'a) option \<Rightarrow> bool" where
  "throws_in_opt S r = (case r of None \<Rightarrow> True | Some res \<Rightarrow> throws_in S res)"

definition header_msgs :: "string set" where
  "header_msgs = {msg_no_header, msg_no_footer}"

section \<open>The header reads of a run\<close>

text \<open>
  The ten functions that share the frame \<open>parse_chunks\<close>, and the switch of each.
\<close>

datatype parser =
    InMain | InEditor | InObject | InObjectBlock | InMesh | InFace
  | InMaterial | InTexture texture_slot | InKeyframe | InHierarchy

fun switch_of :: "config \<Rightarrow> parser \<Rightarrow> handler" where
  "switch_of cfg InMain = ParseMainChunk_switch cfg"
| "switch_of cfg InEditor = ParseEditorChunk_switch cfg"
| "switch_of cfg InObject = ParseObjectChunk_switch cfg"
| "switch_of cfg InObjectBlock = ParseChunk_switch cfg"
| "switch_of cfg InMesh = ParseMeshChunk_switch cfg"
| "switch_of cfg InFace = ParseFaceChunk_switch"
| "switch_of cfg InMaterial = ParseMaterialChunk_switch cfg"
| "switch_of cfg (InTexture pcOut) = ParseTextureChunk_switch pcOut"
| "switch_of cfg InKeyframe = ParseKeyframeChunk_switch cfg"
| "switch_of cfg InHierarchy = ParseHierarchyChunk_switch cfg"

text \<open>
  The call a switch makes to another of the ten functions: which one, on which
  importer, and with which budget. Each of these calls is the last thing the switch
  does, so the switch returns, or raises, what the call does.
\<close>

fun calls ::
  "config \<Rightarrow> parser \<Rightarrow> Chunk \<Rightarrow> int \<Rightarrow> importer \<Rightarrow> (parser \<times> importer \<times> uint32_t) option" where
  "calls cfg InMain c pcCurNext st =
     (if Flag c = CHUNK_MAIN then Some (InEditor, st, Size c - 6) else None)"
| "calls cfg InEditor c pcCurNext st =
     (if Flag c = CHUNK_OBJMESH then Some (InObject, st, Size c - 6)
      else if Flag c = CHUNK_KEYFRAMER then Some (InKeyframe, st, Size c - 6)
      else None)"
| "calls cfg InObject c pcCurNext st =
     (if Flag c = CHUNK_OBJBLOCK then
        (case object_block cfg pcCurNext st of
           Inl e \<Rightarrow> None
         | Inr (iCnt, st1) \<Rightarrow> Some (InObjectBlock, st1, Size c - 6 - of_nat (iCnt + 1)))
      else if Flag c = CHUNK_MAT_MATERIAL then Some (InMaterial, material_block cfg st, Size c - 6)
      else if Flag c = CHUNK_KEYFRAMER then Some (InKeyframe, st, Size c - 6)
      else None)"
| "calls cfg InObjectBlock c pcCurNext st =
     (if Flag c = CHUNK_TRIMESH then Some (InMesh, st, Size c - 6) else None)"
| "calls cfg InMesh c pcCurNext st =
     (if Flag c = CHUNK_FACELIST then
        (case vec_back (mMeshes (mScene st)) of
           Inl e \<Rightarrow> None
         | Inr mMesh \<Rightarrow>
             (case read_face_list cfg mMesh st of
                Inl e \<Rightarrow> None
              | Inr st2 \<Rightarrow>
                  if sint (word_of_int (pcCurNext - mCurrent st2) :: uint32_t) > 0
                  then Some (InFace, st2, word_of_int (pcCurNext - mCurrent st2))
                  else None))
      else None)"
| "calls cfg InMaterial c pcCurNext st =
     (if mMaterials (mScene st) = [] then None
      else if Flag c = CHUNK_MAT_TEXTURE then Some (InTexture slot_Diffuse, st, Size c - 6)
      else if Flag c = CHUNK_MAT_BUMPMAP then Some (InTexture slot_Bump, st, Size c - 6)
      else if Flag c = CHUNK_MAT_OPACMAP then Some (InTexture slot_Opacity, st, Size c - 6)
      else if Flag c = CHUNK_MAT_MAT_SHINMAP then Some (InTexture slot_Shininess, st, Size c - 6)
      else if Flag c = CHUNK_MAT_SPECMAP then Some (InTexture slot_Specular, st, Size c - 6)
      else if Flag c = CHUNK_MAT_SELFIMAP then Some (InTexture slot_Emissive, st, Size c - 6)
      else None)"
| "calls cfg InKeyframe c pcCurNext st =
     (if Flag c = CHUNK_TRACKINFO then Some (InHierarchy, st, Size c - 6) else None)"
| "calls cfg InFace c pcCurNext st = None"
| "calls cfg (InTexture pcOut) c pcCurNext st = None"
| "calls cfg InHierarchy c pcCurNext st = None"

text \<open>
  The importers at which \<open>ParseColorChunk\<close> reads a header: the one it is called on,
  and, for as long as the chunk found is of no colour encoding, the one behind that
  chunk.
\<close>

function colour_reads :: "bool \<Rightarrow> importer \<Rightarrow> importer list" where
  "colour_reads p_bAcceptPercent st =
     st # (case ReadChunk st of
             Inl e \<Rightarrow> []
           | Inr (psChunk, st1) \<Rightarrow>
               (case psChunk of
                  None \<Rightarrow> []
                | Some c \<Rightarrow>
                    (let st2 = advance (uint (Size c - 6)) st1
                     in case color_of_chunk p_bAcceptPercent c (mCurrent st1) st2 of
                          None \<Rightarrow> colour_reads p_bAcceptPercent st2
                        | Some res \<Rightarrow> [])))"
  by pat_completeness auto
termination
proof (relation "measure (\<lambda>(a, st). nat (mLast st - mCurrent st))", goal_cases)
  case 1
  show ?case by simp
next
  case (2 p_bAcceptPercent st x2 psChunk st1 c st2)
  then have "mCurrent st < mLast st" and "mCurrent st1 = mCurrent st + 6" and "mLast st1 = mLast st"
    by (auto simp: ReadChunk_def bindE_def advance_def mLast_def sizeof_Chunk_def
             split: if_splits sum.splits)
  moreover have "- 6 < uint (Size c - 6)"
    using uint_ge_0 [of "Size c - 6"] by linarith
  ultimately show ?case
    using 2 by (simp add: advance_def mLast_def)
qed

declare colour_reads.simps [simp del]

text \<open>
  The importers at which a switch itself reads a header: through \<open>ParseColorChunk\<close>
  for the ambient colour of the scene and the four colours of a material, through
  \<open>ParsePercentageChunk\<close> for the four percentages of a material. \<open>psChunk\<close> has been
  read by the frame; a material switch reaches these reads only when there is a
  material to write to.
\<close>

fun handler_reads :: "config \<Rightarrow> parser \<Rightarrow> Chunk \<Rightarrow> importer \<Rightarrow> importer list" where
  "handler_reads cfg InObject c st =
     (if Flag c = CHUNK_AMBCOLOR then colour_reads True st else [])"
| "handler_reads cfg InMaterial c st =
     (if mMaterials (mScene st) = [] then []
      else if Flag c = CHUNK_MAT_DIFFUSE \<or> Flag c = CHUNK_MAT_SPECULAR \<or>
              Flag c = CHUNK_MAT_AMBIENT \<or> Flag c = CHUNK_MAT_SELF_ILLUM
      then colour_reads p_bAcceptPercent_default st
      else if Flag c = CHUNK_MAT_TRANSPARENCY \<or> Flag c = CHUNK_MAT_SHININESS \<or>
              Flag c = CHUNK_MAT_SHININESS_PERCENT \<or> Flag c = CHUNK_MAT_SELF_ILPCT
      then [st]
      else [])"
| "handler_reads cfg p c st = []"

text \<open>
  A header read that the run of one of the ten functions reaches fails with the
  message \<open>m\<close>: the read of the frame itself, a read of the switch, a read in the
  function the switch calls, or, once the switch has returned and the budget is not
  used up, a read in the rest of the loop.
\<close>

fun header_read_fails ::
  "config \<Rightarrow> parser \<Rightarrow> nat \<Rightarrow> importer \<Rightarrow> uint32_t \<Rightarrow> string \<Rightarrow> bool" where
  "header_read_fails cfg p 0 st piRemaining m = False"
| "header_read_fails cfg p (Suc n) st piRemaining m =
     (case ReadChunk st of
        Inl e \<Rightarrow> e = ImportErrorException m
      | Inr (psChunk, st1) \<Rightarrow>
          (case psChunk of
             None \<Rightarrow> False
           | Some c \<Rightarrow>
               (let pcCurNext = mCurrent st1 + (uint (Size c) - sizeof_Chunk)
                in list_ex (\<lambda>st'. ReadChunk st' = Inl (ImportErrorException m))
                     (handler_reads cfg p c st1) \<or>
                   (case calls cfg p c pcCurNext st1 of
                      None \<Rightarrow> False
                    | Some (q, st', r) \<Rightarrow> header_read_fails cfg q n st' r m) \<or>
                   (case switch_of cfg p n c pcCurNext st1 of
                      Some (Inr st2) \<Rightarrow>
                        (case ASSIMP_3DS_VALIDATE_CHUNK_SIZE cfg pcCurNext st2 of
                           (pcCurNext', st3) \<Rightarrow>
                             (case ASSIMP_3DS_END_CHUNK c pcCurNext' piRemaining st3 of
                                (st4, piRemaining', stop) \<Rightarrow>
                                  \<not> stop \<and> header_read_fails cfg p n st4 piRemaining' m))
                    | _ \<Rightarrow> False))))"

section \<open>Properties\<close>

subsection \<open>Header reads near the end of the buffer\<close>

lemma ReadChunk_short:
  assumes "mLast st - mCurrent st < sizeof_Chunk"
  shows "ReadChunk st =
           (if mCurrent st < mLast st then Inr (None, st)
            else Inl (ImportErrorException msg_no_header))"
  using assms by (simp add: ReadChunk_def)

lemma ParsePercentageChunk_short:
  assumes "mLast st - mCurrent st < sizeof_Chunk"
  shows "ParsePercentageChunk st =
           (if mCurrent st < mLast st then Inr (quiet_NaN, st)
            else Inl (ImportErrorException msg_no_header))"
  using assms by (simp add: ParsePercentageChunk_def ReadChunk_short bindE_def)

lemma ParseColorChunk_short:
  assumes "mLast st - mCurrent st < sizeof_Chunk"
  shows "ParseColorChunk b st =
           (if mCurrent st < mLast st then Inr (clrError, st)
            else Inl (ImportErrorException msg_no_header))"
  using assms by (subst ParseColorChunk.simps) (simp add: ReadChunk_short)

text \<open>
  C3, as the code has it. When fewer bytes remain than a header takes, what
  \<open>ReadChunk\<close> does depends on whether any byte remains: with at least one byte left it
  returns the null header and leaves the cursor alone, and the percentage and colour
  lookups end with the not-a-number sentinel; with no byte left (the cursor at or past
  the end of the buffer) it throws "Unexpected end of file, can't read chunk header",
  and so do the two lookups.
\<close>

theorem ReadChunk_fewer_bytes_than_a_header:
  assumes "mLast st - mCurrent st < sizeof_Chunk"
  shows "(mCurrent st < mLast st \<and>
            ReadChunk st = Inr (None, st) \<and>
            ParsePercentageChunk st = Inr (quiet_NaN, st) \<and>
            ParseColorChunk b st = Inr (clrError, st)) \<or>
         (mLast st \<le> mCurrent st \<and>
            ReadChunk st = Inl (ImportErrorException msg_no_header) \<and>
            ParsePercentageChunk st = Inl (ImportErrorException msg_no_header) \<and>
            ParseColorChunk b st = Inl (ImportErrorException msg_no_header))"
  using assms
  by (simp only: ReadChunk_short ParsePercentageChunk_short ParseColorChunk_short) auto

theorem ReadChunk_fewer_bytes_than_a_header_witness:
  "ReadChunk three_bytes = Inr (None, three_bytes) \<and>
   ParsePercentageChunk three_bytes = Inr (quiet_NaN, three_bytes) \<and>
   ParseColorChunk True three_bytes = Inr (clrError, three_bytes)"
  using ReadChunk_fewer_bytes_than_a_header [of three_bytes True]
  by (simp add: three_bytes_def importer0_def mLast_def sizeof_Chunk_def)

text \<open>
  C3 as stated fails when exactly zero bytes remain: on the empty buffer the header
  read throws instead of returning the null header.
\<close>

theorem ReadChunk_zero_bytes_counterexample:
  "mLast importer0 - mCurrent importer0 = 0 \<and>
   ReadChunk importer0 = Inl (ImportErrorException msg_no_header)"
  by (simp add: ReadChunk_def importer0_def mLast_def)

subsection \<open>The exceptions of a decode\<close>

text \<open>
  Nothing but \<open>ReadChunk\<close> throws once the file has been opened and measured: every
  other failure of the model is undefined behaviour of the source. The lemmas follow
  the call graph from the leaves to \<open>ParseMainChunk\<close>.
\<close>

lemma ok_error_simps [simp]:
  "ok_error S (UndefinedBehaviour u)"
  "ok_error S (ImportErrorException m) = (m \<in> S)"
  by (simp_all add: ok_error_def)

lemma throws_in_simps [simp]:
  "throws_in S (Inr v)"
  "throws_in S (Inl e) = ok_error S e"
  by (simp_all add: throws_in_def)

lemma throws_in_opt_simps [simp]:
  "throws_in_opt S None"
  "throws_in_opt S (Some x) = throws_in S x"
  by (simp_all add: throws_in_opt_def)

lemma throws_in_bindE [simp]:
  "throws_in S (bindE m f) = (throws_in S m \<and> (\<forall>v. m = Inr v \<longrightarrow> throws_in S (f v)))"
  by (cases m) (simp_all add: bindE_def)

lemma throws_in_opt_bindO [simp]:
  "throws_in_opt S (bindO m f) = (throws_in S m \<and> (\<forall>v. m = Inr v \<longrightarrow> throws_in_opt S (f v)))"
  by (cases m) (simp_all add: bindO_def)

lemma throws_in_opt_thenO [simp]:
  "throws_in_opt S (thenO m f) =
     (throws_in_opt S m \<and> (\<forall>v. m = Some (Inr v) \<longrightarrow> throws_in_opt S (f v)))"
  by (cases m) (auto simp: thenO_def split: sum.split)

lemma peek_u8_throws [simp]: "throws_in S (peek_u8 st p)"
  by (simp add: peek_u8_def)

lemma peek_u16_throws [simp]: "throws_in S (peek_u16 st p)"
  unfolding peek_u16_def by simp

lemma peek_u32_throws [simp]: "throws_in S (peek_u32 st p)"
  unfolding peek_u32_def by simp

lemma peek_vec3_throws [simp]: "throws_in S (peek_vec3 st p)"
  unfolding peek_vec3_def by simp

lemma peek_vec2_throws [simp]: "throws_in S (peek_vec2 st p)"
  unfolding peek_vec2_def by simp

lemma peek_bytes_throws [simp]: "throws_in S (peek_bytes st p n)"
  by (simp add: peek_bytes_def)

lemma peek_cstring_throws [simp]: "throws_in S (peek_cstring st p)"
  by (simp add: peek_cstring_def split: option.split)

lemma peek_Chunk_throws [simp]: "throws_in S (peek_Chunk st p)"
  unfolding peek_Chunk_def by simp

lemma scan_asciiz_throws [simp]: "throws_in S (scan_asciiz st nx sz c)"
  by (induction st nx sz c rule: scan_asciiz.induct) (subst scan_asciiz.simps, simp)


lemma ReadChunk_throws [simp]: "header_msgs \<subseteq> S \<Longrightarrow> throws_in S (ReadChunk st)"
  unfolding ReadChunk_def by (auto simp: header_msgs_def)

lemma BEGIN_CHUNK_throws [simp]: "header_msgs \<subseteq> S \<Longrightarrow> throws_in S (ASSIMP_3DS_BEGIN_CHUNK st)"
  by (simp add: ASSIMP_3DS_BEGIN_CHUNK_def split: prod.split option.split)

lemma parse_chunks_throws:
  assumes "header_msgs \<subseteq> S" and "\<And>k c nx s. throws_in_opt S (switch k c nx s)"
  shows "throws_in_opt S (parse_chunks cfg switch n st r)"
proof (induction n arbitrary: st r)
  case 0
  show ?case by simp
next
  case (Suc n)
  show ?case
  proof (cases "ASSIMP_3DS_BEGIN_CHUNK st")
    case (Inl e)
    with BEGIN_CHUNK_throws [OF assms(1), of st] show ?thesis by simp
  next
    case (Inr t)
    obtain c nx st1 where t: "t = (c, nx, st1)" by (cases t)
    show ?thesis
    proof (cases "switch n c nx st1")
      case None
      with Inr t show ?thesis by simp
    next
      case (Some res)
      show ?thesis
      proof (cases res)
        case (Inl e)
        with assms(2) [of n c nx st1] Some Inr t show ?thesis by simp
      next
        case st2: (Inr st2)
        with Some Inr t Suc.IH show ?thesis
          by (simp split: prod.split)
      qed
    qed
  qed
qed

lemma ParsePercentageChunk_throws [simp]:
  "header_msgs \<subseteq> S \<Longrightarrow> throws_in S (ParsePercentageChunk st)"
  by (simp add: ParsePercentageChunk_def split: prod.split option.split)

lemma color_of_chunk_throws [simp]: "throws_in_opt S (color_of_chunk b c p st)"
  by (simp add: color_of_chunk_def Let_def)

lemma ParseColorChunk_throws [simp]:
  "header_msgs \<subseteq> S \<Longrightarrow> throws_in S (ParseColorChunk b st)"
proof (induction b st rule: ParseColorChunk.induct)
  case (1 b st)
  show ?case
  proof (cases "ReadChunk st")
    case (Inl e)
    with ReadChunk_throws [OF 1(2), of st] show ?thesis
      by (subst ParseColorChunk.simps) simp
  next
    case (Inr t)
    obtain psChunk st1 where t: "t = (psChunk, st1)" by (cases t)
    show ?thesis
    proof (cases psChunk)
      case None
      with Inr t show ?thesis by (subst ParseColorChunk.simps) simp
    next
      case (Some c)
      let ?st2 = "advance (uint (Size c - 6)) st1"
      show ?thesis
      proof (cases "color_of_chunk b c (mCurrent st1) ?st2")
        case None
        with 1 Inr t Some show ?thesis
          by (subst ParseColorChunk.simps) (simp add: Let_def)
      next
        case res: (Some res)
        with color_of_chunk_throws [of S b c "mCurrent st1" ?st2] Inr t Some show ?thesis
          by (subst ParseColorChunk.simps) (auto simp: Let_def split: sum.split)
      qed
    qed
  qed
qed


lemma back_upd_throws [simp]: "throws_in S (back_upd f xs)"
  by (simp add: back_upd_def)

lemma vec_back_throws [simp]: "throws_in S (vec_back xs)"
  by (simp add: vec_back_def)

lemma vec_set_throws [simp]: "throws_in S (vec_set i v xs)"
  by (simp add: vec_set_def)

lemma with_material_throws [simp]: "throws_in S (with_material f st)"
  by (simp add: with_material_def)

lemma with_texture_throws [simp]: "throws_in S (with_texture slot f st)"
  by (simp add: with_texture_def)

lemma with_mesh_throws [simp]: "throws_in S (with_mesh f st)"
  by (simp add: with_mesh_def)

lemma ParseTextureChunk_switch_throws [simp]:
  "throws_in_opt S (ParseTextureChunk_switch slot k c nx s)"
  by (simp add: ParseTextureChunk_switch_def split: prod.split)

lemma ParseTextureChunk_throws [simp]:
  "throws_in_opt header_msgs (ParseTextureChunk cfg n slot st r)"
  unfolding ParseTextureChunk_def by (rule parse_chunks_throws) simp_all

lemma material_color_throws [simp]:
  "throws_in header_msgs (material_color cfg store msg fallback st)"
  by (simp add: material_color_def split: prod.split)

lemma material_percentage_throws [simp]:
  "throws_in header_msgs (material_percentage cfg store fallback convert st)"
  by (simp add: material_percentage_def split: prod.split)

lemma material_texture_throws [simp]:
  "throws_in_opt header_msgs (material_texture cfg n slot c st)"
  by (simp add: material_texture_def)

lemma ParseMaterialChunk_switch_throws [simp]:
  "throws_in_opt header_msgs (ParseMaterialChunk_switch cfg k c nx s)"
  by (simp add: ParseMaterialChunk_switch_def split: prod.split)

lemma ParseMaterialChunk_throws [simp]:
  "throws_in_opt header_msgs (ParseMaterialChunk cfg n st r)"
  unfolding ParseMaterialChunk_def by (rule parse_chunks_throws) simp_all

lemma ASSIMP_stricmp_throws [simp]: "throws_in S (ASSIMP_stricmp st p s2)"
  by (induction s2 arbitrary: p) simp_all

lemma find_material_throws [simp]: "throws_in S (find_material st ms i)"
  by (induction ms arbitrary: i) simp_all

lemma assign_faces_throws [simp]: "throws_in S (assign_faces k i fm st)"
  by (induction k arbitrary: fm st) simp_all

lemma read_smoothing_throws [simp]: "throws_in S (read_smoothing st fs)"
  by (induction fs arbitrary: st) (simp_all split: prod.split)

lemma ParseFaceChunk_switch_throws [simp]:
  "throws_in_opt S (ParseFaceChunk_switch k c nx s)"
  by (simp add: ParseFaceChunk_switch_def split: prod.split)

lemma ParseFaceChunk_throws [simp]:
  "throws_in_opt header_msgs (ParseFaceChunk cfg n st r)"
  unfolding ParseFaceChunk_def by (rule parse_chunks_throws) simp_all

lemma read_vertices_throws [simp]: "throws_in S (read_vertices k st vs)"
  by (induction k arbitrary: st vs) simp_all

lemma read_texcoords_throws [simp]: "throws_in S (read_texcoords k st vs)"
  by (induction k arbitrary: st vs) simp_all

lemma read_faces_throws [simp]: "throws_in S (read_faces cfg k st fs)"
  by (induction k arbitrary: st fs) simp_all

lemma peek_floats_throws [simp]: "throws_in S (peek_floats st p k)"
  by (induction k arbitrary: p) simp_all

lemma read_face_list_throws [simp]: "throws_in S (read_face_list cfg mMesh st)"
  by (simp add: read_face_list_def split: prod.split)

lemma ParseMeshChunk_switch_throws [simp]:
  "throws_in_opt header_msgs (ParseMeshChunk_switch cfg k c nx s)"
  by (simp add: ParseMeshChunk_switch_def split: prod.split)

lemma ParseMeshChunk_throws [simp]:
  "throws_in_opt header_msgs (ParseMeshChunk cfg n st r)"
  unfolding ParseMeshChunk_def by (rule parse_chunks_throws) simp_all


lemma get_node_throws [simp]: "throws_in S (get_node st p)"
  by (simp add: get_node_def)

lemma deref_throws [simp]: "throws_in S (deref p)"
  by (simp add: deref_def split: option.split)

lemma with_node_throws [simp]: "throws_in S (with_node p f st)"
  by (simp add: with_node_def)

lemma with_current_node_throws [simp]: "throws_in S (with_current_node f st)"
  by (simp add: with_current_node_def)

lemma push_back_throws [simp]: "throws_in S (push_back this pc st)"
  by (simp add: push_back_def)

lemma InverseNodeSearch_throws [simp]: "throws_in_opt S (InverseNodeSearch n pcNode cur st)"
  by (induction n pcNode cur st rule: InverseNodeSearch.induct) (simp_all split: option.split)

lemma same_level_throws [simp]: "throws_in S (same_level st h)"
  by (simp add: same_level_def split: option.split)

lemma attach_node_throws [simp]: "throws_in_opt S (attach_node n pcNode h st)"
  by (simp add: attach_node_def)

lemma track_object_name_throws [simp]: "throws_in_opt S (track_object_name cfg n nx st)"
  by (simp add: track_object_name_def split: prod.split)

lemma read_position_keys_throws [simp]: "throws_in S (read_position_keys k st)"
  by (induction k arbitrary: st) simp_all

lemma read_rotation_keys_throws [simp]: "throws_in S (read_rotation_keys k st)"
  by (induction k arbitrary: st) simp_all

lemma read_scaling_keys_throws [simp]: "throws_in S (read_scaling_keys k c st)"
  by (induction k arbitrary: c st) simp_all

lemma ParseHierarchyChunk_switch_throws [simp]:
  "throws_in_opt S (ParseHierarchyChunk_switch cfg k c nx s)"
  by (simp add: ParseHierarchyChunk_switch_def split: prod.split)

lemma ParseHierarchyChunk_throws [simp]:
  "throws_in_opt header_msgs (ParseHierarchyChunk cfg n st r)"
  unfolding ParseHierarchyChunk_def by (rule parse_chunks_throws) simp_all

lemma ParseKeyframeChunk_throws [simp]:
  "throws_in_opt header_msgs (ParseKeyframeChunk cfg n st r)"
  unfolding ParseKeyframeChunk_def
  by (rule parse_chunks_throws) (simp_all add: ParseKeyframeChunk_switch_def)

lemma ParseChunk_throws [simp]:
  "throws_in_opt header_msgs (ParseChunk cfg n st r)"
  unfolding ParseChunk_def
  by (rule parse_chunks_throws) (simp_all add: ParseChunk_switch_def)

lemma object_block_throws [simp]: "throws_in S (object_block cfg nx st)"
  by (simp add: object_block_def split: prod.split)

lemma ParseObjectChunk_switch_throws [simp]:
  "throws_in_opt header_msgs (ParseObjectChunk_switch cfg k c nx s)"
  by (simp add: ParseObjectChunk_switch_def split: prod.split)

lemma ParseObjectChunk_throws [simp]:
  "throws_in_opt header_msgs (ParseObjectChunk cfg n st r)"
  unfolding ParseObjectChunk_def by (rule parse_chunks_throws) simp_all

lemma ParseEditorChunk_throws [simp]:
  "throws_in_opt header_msgs (ParseEditorChunk cfg n st r)"
  unfolding ParseEditorChunk_def
  by (rule parse_chunks_throws) (simp_all add: ParseEditorChunk_switch_def)

lemma ParseMainChunk_throws [simp]:
  "throws_in_opt header_msgs (ParseMainChunk cfg n st r)"
  unfolding ParseMainChunk_def
  by (rule parse_chunks_throws) (simp_all add: ParseMainChunk_switch_def)

lemma ReadChunk_throws_iff:
  "ReadChunk st = Inl (ImportErrorException m) \<longleftrightarrow>
     (mLast st \<le> mCurrent st \<and> m = msg_no_header) \<or>
     (\<exists>c. mCurrent st < mLast st \<and> sizeof_Chunk \<le> mLast st - mCurrent st \<and>
          peek_Chunk st (mCurrent st) = Inr c \<and>
          mLast st < uint (Size c) + mCurrent st \<and> m = msg_no_footer)"
proof (cases "peek_Chunk st (mCurrent st)")
  case (Inl e)
  have "\<not> ok_error {} e \<Longrightarrow> False"
    using peek_Chunk_throws [of "{}" st "mCurrent st"] Inl by simp
  then have "\<And>m. e \<noteq> ImportErrorException m"
    by auto
  with Inl show ?thesis
    by (auto simp: ReadChunk_def bindE_def)
next
  case (Inr c)
  then show ?thesis
    by (auto simp: ReadChunk_def bindE_def)
qed

text \<open>
  Where an exception of the importer comes from. Reads through a pointer, vector
  accesses and node lookups raise none; \<open>ParseColorChunk\<close> and \<open>ParsePercentageChunk\<close>
  raise what their header reads raise; a switch raises what its own header reads and
  the function it calls raise.
\<close>

lemma no_exception:
  "throws_in {} r \<Longrightarrow> r \<noteq> Inl (ImportErrorException m)"
  by auto

lemma no_exception_opt:
  "throws_in_opt {} r \<Longrightarrow> r \<noteq> Some (Inl (ImportErrorException m))"
  by auto

lemma ParseColorChunk_exception:
  "ParseColorChunk b st = Inl (ImportErrorException m) \<longleftrightarrow>
   list_ex (\<lambda>st'. ReadChunk st' = Inl (ImportErrorException m)) (colour_reads b st)"
proof (induction b st rule: ParseColorChunk.induct)
  case (1 b st)
  show ?case
  proof (cases "ReadChunk st")
    case (Inl e)
    then show ?thesis
      by (subst ParseColorChunk.simps, subst colour_reads.simps) auto
  next
    case (Inr t)
    obtain psChunk st1 where t: "t = (psChunk, st1)" by (cases t)
    show ?thesis
    proof (cases psChunk)
      case None
      with Inr t show ?thesis
        by (subst ParseColorChunk.simps, subst colour_reads.simps) simp
    next
      case (Some c)
      let ?st2 = "advance (uint (Size c - 6)) st1"
      show ?thesis
      proof (cases "color_of_chunk b c (mCurrent st1) ?st2")
        case None
        with 1 [OF Inr t [symmetric] Some refl refl None] Inr t Some show ?thesis
          by (subst ParseColorChunk.simps, subst colour_reads.simps) (simp add: Let_def)
      next
        case res: (Some res)
        with color_of_chunk_throws [of "{}" b c "mCurrent st1" ?st2] Inr t Some show ?thesis
          by (subst ParseColorChunk.simps, subst colour_reads.simps)
             (auto simp: Let_def split: sum.split)
      qed
    qed
  qed
qed

lemma ParsePercentageChunk_exception:
  "ParsePercentageChunk st = Inl (ImportErrorException m) \<longleftrightarrow>
   ReadChunk st = Inl (ImportErrorException m)"
proof (cases "ReadChunk st")
  case (Inl e)
  then show ?thesis by (simp add: ParsePercentageChunk_def bindE_def)
next
  case (Inr t)
  obtain psChunk st1 where t: "t = (psChunk, st1)" by (cases t)
  have "peek_u32 st1 (mCurrent st1) \<noteq> Inl (ImportErrorException m)"
       "peek_u16 st1 (mCurrent st1) \<noteq> Inl (ImportErrorException m)"
    by (rule no_exception, simp)+
  with Inr t show ?thesis
    by (auto simp: ParsePercentageChunk_def bindE_def split: option.splits sum.splits)
qed

lemma material_color_exception:
  "material_color cfg store msg fallback st = Inl (ImportErrorException m) \<longleftrightarrow>
   mMaterials (mScene st) \<noteq> [] \<and>
   ParseColorChunk p_bAcceptPercent_default st = Inl (ImportErrorException m)"
proof -
  have "with_material f s \<noteq> Inl (ImportErrorException m)" for f s
    by (rule no_exception) simp
  then show ?thesis
    by (auto simp: material_color_def vec_back_def bindE_def split: sum.splits prod.splits)
qed

lemma material_percentage_exception:
  "material_percentage cfg store fallback convert st = Inl (ImportErrorException m) \<longleftrightarrow>
   mMaterials (mScene st) \<noteq> [] \<and> ReadChunk st = Inl (ImportErrorException m)"
proof -
  have "with_material f s \<noteq> Inl (ImportErrorException m)" for f s
    by (rule no_exception) simp
  then show ?thesis
    by (auto simp: material_percentage_def vec_back_def bindE_def
          ParsePercentageChunk_exception [symmetric] split: sum.splits prod.splits)
qed

lemma calls_sound:
  assumes "calls cfg p c nx st = Some (q, st', r)"
  shows "switch_of cfg p n c nx st = parse_chunks cfg (switch_of cfg q) n st' r"
proof (cases p)
  case InMain
  with assms show ?thesis
    by (auto simp: ParseMainChunk_switch_def ParseEditorChunk_def split: if_splits) 
next
  case InEditor
  with assms show ?thesis
    by (auto simp: ParseEditorChunk_switch_def ParseObjectChunk_def ParseKeyframeChunk_def
          CHUNK_defs split: if_splits) 
next
  case InObject
  with assms show ?thesis
    by (auto simp: ParseObjectChunk_switch_def ParseChunk_def ParseMaterialChunk_def
          ParseKeyframeChunk_def bindO_def CHUNK_defs split: if_splits sum.splits)
next
  case InObjectBlock
  with assms show ?thesis
    by (auto simp: ParseChunk_switch_def ParseMeshChunk_def split: if_splits) 
next
  case InMesh
  with assms show ?thesis
    by (auto simp: ParseMeshChunk_switch_def ParseFaceChunk_def bindO_def CHUNK_defs
          split: if_splits sum.splits)
next
  case InMaterial
  with assms show ?thesis
    by (auto simp: ParseMaterialChunk_switch_def material_texture_def ParseTextureChunk_def
          vec_back_def bindO_def CHUNK_defs split: if_splits)
next
  case InKeyframe
  with assms show ?thesis
    by (auto simp: ParseKeyframeChunk_switch_def ParseHierarchyChunk_def split: if_splits) 
qed (use assms in simp_all)

lemma handler_reads_Nil:
  "calls cfg p c nx st = Some x \<Longrightarrow> handler_reads cfg p c st = []"
  by (cases p) (auto simp: CHUNK_defs split: if_splits)


lemma material_switch_colour:
  "Flag c = CHUNK_MAT_DIFFUSE \<or> Flag c = CHUNK_MAT_SPECULAR \<or>
   Flag c = CHUNK_MAT_AMBIENT \<or> Flag c = CHUNK_MAT_SELF_ILLUM \<Longrightarrow>
   \<exists>store msg fallback.
     ParseMaterialChunk_switch cfg n c nx st = Some (material_color cfg store msg fallback st)"
  by (auto simp: ParseMaterialChunk_switch_def CHUNK_defs)

lemma material_switch_percentage:
  "Flag c = CHUNK_MAT_TRANSPARENCY \<or> Flag c = CHUNK_MAT_SHININESS \<or>
   Flag c = CHUNK_MAT_SHININESS_PERCENT \<or> Flag c = CHUNK_MAT_SELF_ILPCT \<Longrightarrow>
   \<exists>store fallback convert.
     ParseMaterialChunk_switch cfg n c nx st =
       Some (material_percentage cfg store fallback convert st)"
  by (auto simp: ParseMaterialChunk_switch_def CHUNK_defs)

lemma material_switch_other:
  assumes "Flag c \<noteq> CHUNK_MAT_DIFFUSE" "Flag c \<noteq> CHUNK_MAT_SPECULAR"
    "Flag c \<noteq> CHUNK_MAT_AMBIENT" "Flag c \<noteq> CHUNK_MAT_SELF_ILLUM"
    "Flag c \<noteq> CHUNK_MAT_TRANSPARENCY" "Flag c \<noteq> CHUNK_MAT_SHININESS"
    "Flag c \<noteq> CHUNK_MAT_SHININESS_PERCENT" "Flag c \<noteq> CHUNK_MAT_SELF_ILPCT"
    "Flag c \<noteq> CHUNK_MAT_TEXTURE" "Flag c \<noteq> CHUNK_MAT_BUMPMAP"
    "Flag c \<noteq> CHUNK_MAT_OPACMAP" "Flag c \<noteq> CHUNK_MAT_MAT_SHINMAP"
    "Flag c \<noteq> CHUNK_MAT_SPECMAP" "Flag c \<noteq> CHUNK_MAT_SELFIMAP"
  shows "throws_in_opt {} (ParseMaterialChunk_switch cfg n c nx st)"
  using assms by (simp add: ParseMaterialChunk_switch_def split: prod.split)

lemma material_switch_no_material:
  assumes "mMaterials (mScene st) = []"
  shows "throws_in_opt {} (ParseMaterialChunk_switch cfg n c nx st)"
proof -
  have "throws_in {} (material_color cfg store msg fallback st)" for store msg fallback
    using assms by (simp add: material_color_def vec_back_def bindE_def)
  moreover have "throws_in {} (material_percentage cfg store fallback convert st)"
    for store fallback convert
    using assms by (simp add: material_percentage_def vec_back_def bindE_def)
  moreover have "throws_in_opt {} (material_texture cfg n slot c st)" for slot
    using assms by (simp add: material_texture_def vec_back_def bindO_def)
  ultimately show ?thesis
    by (simp add: ParseMaterialChunk_switch_def split: prod.split)
qed

lemma material_switch_exception:
  assumes "calls cfg InMaterial c nx st = None"
  shows "ParseMaterialChunk_switch cfg n c nx st = Some (Inl (ImportErrorException m)) \<longleftrightarrow>
         list_ex (\<lambda>st'. ReadChunk st' = Inl (ImportErrorException m))
           (handler_reads cfg InMaterial c st)"
proof (cases "mMaterials (mScene st) = []")
  case True
  with no_exception_opt [OF material_switch_no_material [OF True], of cfg n c nx m]
  show ?thesis by simp
next
  case False
  consider
    (colour) "Flag c = CHUNK_MAT_DIFFUSE \<or> Flag c = CHUNK_MAT_SPECULAR \<or>
              Flag c = CHUNK_MAT_AMBIENT \<or> Flag c = CHUNK_MAT_SELF_ILLUM"
    | (percentage) "Flag c = CHUNK_MAT_TRANSPARENCY \<or> Flag c = CHUNK_MAT_SHININESS \<or>
              Flag c = CHUNK_MAT_SHININESS_PERCENT \<or> Flag c = CHUNK_MAT_SELF_ILPCT"
    | (other) "Flag c \<noteq> CHUNK_MAT_DIFFUSE" "Flag c \<noteq> CHUNK_MAT_SPECULAR"
              "Flag c \<noteq> CHUNK_MAT_AMBIENT" "Flag c \<noteq> CHUNK_MAT_SELF_ILLUM"
              "Flag c \<noteq> CHUNK_MAT_TRANSPARENCY" "Flag c \<noteq> CHUNK_MAT_SHININESS"
              "Flag c \<noteq> CHUNK_MAT_SHININESS_PERCENT" "Flag c \<noteq> CHUNK_MAT_SELF_ILPCT"
    by blast
  then show ?thesis
  proof cases
    case colour
    from material_switch_colour [OF colour, of cfg n nx st] obtain store msg fallback where
      "ParseMaterialChunk_switch cfg n c nx st = Some (material_color cfg store msg fallback st)"
      by blast
    with colour False show ?thesis
      by (simp add: material_color_exception ParseColorChunk_exception)
  next
    case percentage
    from material_switch_percentage [OF percentage, of cfg n nx st] obtain store fallback convert where
      "ParseMaterialChunk_switch cfg n c nx st =
         Some (material_percentage cfg store fallback convert st)"
      by blast
    moreover have "\<not> (Flag c = CHUNK_MAT_DIFFUSE \<or> Flag c = CHUNK_MAT_SPECULAR \<or>
              Flag c = CHUNK_MAT_AMBIENT \<or> Flag c = CHUNK_MAT_SELF_ILLUM)"
      using percentage by (auto simp: CHUNK_defs)
    ultimately show ?thesis
      using percentage False by (simp add: material_percentage_exception)
  next
    case other
    have tex: "Flag c \<noteq> CHUNK_MAT_TEXTURE" "Flag c \<noteq> CHUNK_MAT_BUMPMAP"
      "Flag c \<noteq> CHUNK_MAT_OPACMAP" "Flag c \<noteq> CHUNK_MAT_MAT_SHINMAP"
      "Flag c \<noteq> CHUNK_MAT_SPECMAP" "Flag c \<noteq> CHUNK_MAT_SELFIMAP"
      using assms False by (simp_all split: if_splits)
    from no_exception_opt [OF material_switch_other [OF other tex], of cfg n nx st m] other False
    show ?thesis by simp
  qed
qed

lemma switch_exception:
  assumes "calls cfg p c nx st = None"
  shows "switch_of cfg p n c nx st = Some (Inl (ImportErrorException m)) \<longleftrightarrow>
         list_ex (\<lambda>st'. ReadChunk st' = Inl (ImportErrorException m)) (handler_reads cfg p c st)"
proof (cases p)
  case InMain
  with assms show ?thesis
    by (auto simp: ParseMainChunk_switch_def split: if_splits)
next
  case InEditor
  with assms have "throws_in_opt {} (switch_of cfg p n c nx st)"
    by (auto simp: ParseEditorChunk_switch_def split: if_splits)
  with InEditor show ?thesis
    by (auto dest: no_exception_opt)
next
  case InObject
  show ?thesis
  proof (cases "Flag c = CHUNK_AMBCOLOR")
    case True
    with InObject show ?thesis
      by (auto simp: ParseObjectChunk_switch_def CHUNK_defs bindE_def
            ParseColorChunk_exception [symmetric] split: sum.splits prod.splits)
  next
    case False
    with assms InObject have "throws_in_opt {} (switch_of cfg p n c nx st)"
      by (auto simp: ParseObjectChunk_switch_def split: if_splits sum.splits)
    with InObject False show ?thesis
      by (auto dest: no_exception_opt)
  qed
next
  case InObjectBlock
  with assms show ?thesis
    by (auto simp: ParseChunk_switch_def split: if_splits)
next
  case InMesh
  with assms have "throws_in_opt {} (switch_of cfg p n c nx st)"
    by (auto simp: ParseMeshChunk_switch_def split: if_splits sum.splits prod.splits)
  with InMesh show ?thesis
    by (auto dest: no_exception_opt)
next
  case InFace
  then show ?thesis
    using no_exception_opt [OF ParseFaceChunk_switch_throws, of n c nx st m] by auto
next
  case InMaterial
  from assms InMaterial show ?thesis
    by (simp add: material_switch_exception)
next
  case (InTexture pcOut)
  then show ?thesis
    using no_exception_opt [OF ParseTextureChunk_switch_throws, of pcOut n c nx st m] by auto
next
  case InKeyframe
  with assms show ?thesis
    by (auto simp: ParseKeyframeChunk_switch_def split: if_splits)
next
  case InHierarchy
  then show ?thesis
    using no_exception_opt [OF ParseHierarchyChunk_switch_throws, of cfg n c nx st m] by auto
qed


lemma header_read_fails_iff:
  "parse_chunks cfg (switch_of cfg p) n st r = Some (Inl (ImportErrorException m)) \<longleftrightarrow>
   header_read_fails cfg p n st r m"
proof (induction n arbitrary: p st r)
  case 0
  show ?case by simp
next
  case (Suc n)
  show ?case
  proof (cases "ReadChunk st")
    case (Inl e)
    then show ?thesis
      by (auto simp: ASSIMP_3DS_BEGIN_CHUNK_def bindE_def)
  next
    case (Inr t)
    obtain psChunk st1 where t: "t = (psChunk, st1)" by (cases t)
    show ?thesis
    proof (cases psChunk)
      case None
      with Inr t show ?thesis
        by (simp add: ASSIMP_3DS_BEGIN_CHUNK_def bindE_def)
    next
      case (Some c)
      define nx where "nx = mCurrent st1 + (uint (Size c) - sizeof_Chunk)"
      define continue where
        "continue st2 =
           (case ASSIMP_3DS_VALIDATE_CHUNK_SIZE cfg nx st2 of
              (nx', st3) \<Rightarrow>
                (case ASSIMP_3DS_END_CHUNK c nx' r st3 of (st4, r', stop) \<Rightarrow> (st4, r', stop)))"
        for st2
      let ?sw = "switch_of cfg p n c nx st1"
      let ?reads = "list_ex (\<lambda>st'. ReadChunk st' = Inl (ImportErrorException m))
                      (handler_reads cfg p c st1)"
      let ?nested = "case calls cfg p c nx st1 of
                       None \<Rightarrow> False
                     | Some (q, st', r') \<Rightarrow> header_read_fails cfg q n st' r' m"
      have start: "ASSIMP_3DS_BEGIN_CHUNK st = Inr (c, nx, st1)"
        using Inr t Some by (simp add: ASSIMP_3DS_BEGIN_CHUNK_def bindE_def nx_def)
      have lhs: "parse_chunks cfg (switch_of cfg p) (Suc n) st r =
          (case ?sw of
             None \<Rightarrow> None
           | Some (Inl e) \<Rightarrow> Some (Inl e)
           | Some (Inr st2) \<Rightarrow>
               (case continue st2 of
                  (st4, r', stop) \<Rightarrow>
                    if stop then Some (Inr st4)
                    else parse_chunks cfg (switch_of cfg p) n st4 r'))"
        using start by (simp add: continue_def split: prod.split option.split sum.split)
      have rhs: "header_read_fails cfg p (Suc n) st r m =
          (?reads \<or> ?nested \<or>
           (case ?sw of
              Some (Inr st2) \<Rightarrow>
                (case continue st2 of
                   (st4, r', stop) \<Rightarrow> \<not> stop \<and> header_read_fails cfg p n st4 r' m)
            | _ \<Rightarrow> False))"
        using Inr t Some
        by (simp add: continue_def nx_def Let_def split: prod.split option.split sum.split)
      have later: "(case continue st2 of
                      (st4, r', stop) \<Rightarrow>
                        if stop then Some (Inr st4)
                        else parse_chunks cfg (switch_of cfg p) n st4 r') =
                   Some (Inl (ImportErrorException m)) \<longleftrightarrow>
                   (case continue st2 of
                      (st4, r', stop) \<Rightarrow> \<not> stop \<and> header_read_fails cfg p n st4 r' m)"
        for st2
        using Suc.IH by (auto split: prod.split)
      show ?thesis
      proof (cases "calls cfg p c nx st1")
        case None
        note sx = switch_exception [OF None, of n m]
        show ?thesis
        proof (cases ?sw)
          case no: None
          with sx None show ?thesis
            by (simp add: lhs rhs del: parse_chunks.simps header_read_fails.simps)
        next
          case (Some res)
          show ?thesis
          proof (cases res)
            case (Inl e)
            with sx None Some show ?thesis
              by (auto simp: lhs rhs simp del: parse_chunks.simps header_read_fails.simps)
          next
            case (Inr st2)
            with sx None Some later [of st2] show ?thesis
              by (simp add: lhs rhs del: parse_chunks.simps header_read_fails.simps)
          qed
        qed
      next
        case call: (Some x)
        obtain q st' r' where x: "x = (q, st', r')" by (cases x)
        have no_reads: "handler_reads cfg p c st1 = []"
          using call by (rule handler_reads_Nil)
        have sw: "?sw = parse_chunks cfg (switch_of cfg q) n st' r'"
          using call x by (simp add: calls_sound)
        have nested: "?nested \<longleftrightarrow> ?sw = Some (Inl (ImportErrorException m))"
          using call x sw Suc.IH [of q st' r'] by simp
        show ?thesis
        proof (cases ?sw)
          case None
          with nested no_reads show ?thesis
            by (simp add: lhs rhs del: parse_chunks.simps header_read_fails.simps)
        next
          case (Some res)
          show ?thesis
          proof (cases res)
            case (Inl e)
            with nested no_reads Some show ?thesis
              by (auto simp: lhs rhs simp del: parse_chunks.simps header_read_fails.simps)
          next
            case (Inr st2)
            with nested no_reads Some later [of st2] show ?thesis
              by (simp add: lhs rhs del: parse_chunks.simps header_read_fails.simps)
          qed
        qed
      qed
    qed
  qed
qed


lemma parse_chunks_messages:
  "throws_in_opt header_msgs (parse_chunks cfg (switch_of cfg p) n st r)"
proof (cases p)
  case InMain
  with ParseMainChunk_throws [of cfg n st r] show ?thesis by (simp add: ParseMainChunk_def)
next
  case InEditor
  with ParseEditorChunk_throws [of cfg n st r] show ?thesis by (simp add: ParseEditorChunk_def)
next
  case InObject
  with ParseObjectChunk_throws [of cfg n st r] show ?thesis by (simp add: ParseObjectChunk_def)
next
  case InObjectBlock
  with ParseChunk_throws [of cfg n st r] show ?thesis by (simp add: ParseChunk_def)
next
  case InMesh
  with ParseMeshChunk_throws [of cfg n st r] show ?thesis by (simp add: ParseMeshChunk_def)
next
  case InFace
  with ParseFaceChunk_throws [of cfg n st r] show ?thesis by (simp add: ParseFaceChunk_def)
next
  case InMaterial
  with ParseMaterialChunk_throws [of cfg n st r] show ?thesis by (simp add: ParseMaterialChunk_def)
next
  case (InTexture pcOut)
  with ParseTextureChunk_throws [of cfg n pcOut st r] show ?thesis
    by (simp add: ParseTextureChunk_def)
next
  case InKeyframe
  with ParseKeyframeChunk_throws [of cfg n st r] show ?thesis by (simp add: ParseKeyframeChunk_def)
next
  case InHierarchy
  with ParseHierarchyChunk_throws [of cfg n st r] show ?thesis
    by (simp add: ParseHierarchyChunk_def)
qed

lemma header_read_fails_message:
  assumes "header_read_fails cfg p n st r m"
  shows "m = msg_no_header \<or> m = msg_no_footer"
proof -
  from assms have "parse_chunks cfg (switch_of cfg p) n st r = Some (Inl (ImportErrorException m))"
    by (simp add: header_read_fails_iff)
  with parse_chunks_messages [of cfg p n st r] show ?thesis
    by (simp add: header_msgs_def)
qed




subsection \<open>The end of a chunk\<close>

lemma BEGIN_CHUNK_end:
  assumes "ASSIMP_3DS_BEGIN_CHUNK st = Inr (psChunk, pcCurNext, st1)"
  shows "pcCurNext = mCurrent st + uint (Size psChunk) \<and> pcCurNext \<le> mLast st \<and>
         st1 = advance sizeof_Chunk st"
  using assms
  by (auto simp: ASSIMP_3DS_BEGIN_CHUNK_def ReadChunk_def bindE_def advance_def sizeof_Chunk_def
           split: if_splits sum.splits option.splits)




text \<open>
  Nor does every container loop end: a chunk that declares the size zero moves the
  cursor back to its own header and leaves the budget as it was, so the decode of
  \<open>file_zero_size\<close> needs more calls than any count allows.
\<close>

lemma zero_size_step:
  "parse_chunks release (ParseMainChunk_switch release) (Suc n) at_zero_size 16 =
   parse_chunks release (ParseMainChunk_switch release) n at_zero_size 16"
proof -
  have b: "ASSIMP_3DS_BEGIN_CHUNK at_zero_size =
             Inr (\<lparr>Flag = 0x7777, Size = 0\<rparr>, 0, at_zero_size\<lparr>mCurrent := 6\<rparr>)"
    by code_simp
  have s: "ParseMainChunk_switch release n \<lparr>Flag = 0x7777, Size = 0\<rparr> 0 (at_zero_size\<lparr>mCurrent := 6\<rparr>) =
             Some (Inr (at_zero_size\<lparr>mCurrent := 6\<rparr>))"
    by (simp add: ParseMainChunk_switch_def CHUNK_MAIN_def)
  have v: "ASSIMP_3DS_VALIDATE_CHUNK_SIZE release 0 (at_zero_size\<lparr>mCurrent := 6\<rparr>) =
             (0, at_zero_size\<lparr>mCurrent := 6\<rparr>)"
    by (simp add: ASSIMP_3DS_VALIDATE_CHUNK_SIZE_def release_def)
  have e: "ASSIMP_3DS_END_CHUNK \<lparr>Flag = 0x7777, Size = 0\<rparr> 0 16 (at_zero_size\<lparr>mCurrent := 6\<rparr>) =
             (at_zero_size, 16, False)"
    by (simp add: ASSIMP_3DS_END_CHUNK_def at_zero_size_def importer0_def)
  show ?thesis
    by (simp add: b s v e)
qed

lemma zero_size_chunk_never_returns:
  "InternReadFile conv release n importer0 ''scene.3ds'' (Some file_zero_size) pScene = None"
proof -
  have "parse_chunks release (ParseMainChunk_switch release) n at_zero_size 16 = None"
    by (induction n) (simp_all only: parse_chunks.simps(1) zero_size_step)
  moreover have "length file_zero_size = 16"
    by (simp add: file_zero_size_def le16_def le32_def)
  ultimately show ?thesis
    by (simp add: InternReadFile_def InternReadFile_parse_def begin_state_def ParseMainChunk_def
          at_zero_size_def importer0_def release_def f_one_def Node0_def thenO_def)
qed

subsection \<open>The node hierarchy\<close>

text \<open>
  C2. The track \<open>(A,0), (B,1), (C,1), (D,0)\<close>, each raw level incremented on read, under
  a root of level \<open>-1\<close>: the nodes are numbered in the order of their creation, the
  root first. The root's children are A and D, in this order; A's children are B and C,
  in this order; B, C and D have none. The three branches are all taken: after A and B
  the last node is B with level 2 and \<open>mLastNodeIndex\<close> is 2, so A and B were attached
  below the last node; C has B's level and becomes its sibling, which makes
  \<open>mLastNodeIndex\<close> 3; D has level 1, neither C's level nor at least 3, and is placed by
  the search towards the root.
\<close>

theorem hierarchy_of_A_B_C_D:
  "view tree (decode release file_ABCD) =
     Some (Inr [([], None, [1, 4]),
                (bytes_of ''A'', Some 0, [2, 3]),
                (bytes_of ''B'', Some 1, []),
                (bytes_of ''C'', Some 1, []),
                (bytes_of ''D'', Some 0, [])]) \<and>
   view levels (decode release file_AB) = Some (Inr ([- 1, 1, 2], Some 2, 2)) \<and>
   view levels (decode release file_ABC) = Some (Inr ([- 1, 1, 2, 2], Some 3, 3)) \<and>
   view levels (decode release file_ABCD) = Some (Inr ([- 1, 1, 2, 2, 1], Some 4, 4))"
  by code_simp

subsection \<open>Zero-terminated strings\<close>

text \<open>
  C5 does not hold of the code. The background-image name is copied up to the first
  zero byte wherever that is: in \<open>file_unterminated_bitmap\<close> the chunk holds \<open>ab\<close> at
  offsets 18 and 19 and ends at 20, and the name the decode stores goes on with the
  first three bytes of the next chunk. The loop that measures the other names reads the
  byte at the cursor before it compares with the chunk's end: for a name chunk with no
  payload at the end of the buffer that read is past the buffer.
\<close>

theorem unterminated_name_is_read_past_the_chunk:
  "peek_Chunk (importer0\<lparr>mBuffer := file_unterminated_bitmap\<rparr>) 12 =
     Inr \<lparr>Flag = CHUNK_BIT_MAP, Size = 8\<rparr> \<and>
   view mBackgroundImage (decode release file_unterminated_bitmap) =
     Some (Inr (bytes_of ''ab'' @ [0x01, 0x11, 0x06])) \<and>
   mLast three_bytes = 3 \<and>
   scan_asciiz three_bytes 3 3 0 = Inl (UndefinedBehaviour BufferOverread)"
  by code_simp

subsection \<open>Scaling tracks\<close>

text \<open>
  C6 does not hold of the code. The loop counts the keys whose three components are
  all nonzero, and the track is cleared when that count equals the number of keys: a
  track of two keys \<open>(0, 0, 0)\<close> keeps both, and a track of two keys \<open>(1, 1, 1)\<close> is
  emptied.
\<close>

theorem zero_scaling_track_is_kept:
  "view scaling (decode release file_zero_scaling) =
     Some (Inr [(0, zero_vec), (1, zero_vec)]) \<and>
   view scaling (decode release file_unit_scaling) = Some (Inr [])"
  by code_simp

subsection \<open>Face materials\<close>

lemma size_minus_1_Nil: "size_minus_1 [] = 2 ^ 64 - 1"
  by (simp add: size_minus_1_def unsigned_minus_1_eq_mask mask_eq_exp_minus_1)

lemma size_minus_1_in_range:
  assumes "xs \<noteq> []"
  shows "size_minus_1 xs < length xs"
proof (cases "(of_nat (length xs) :: size_t) = 0")
  case True
  then have "(2::nat) ^ 64 dvd length xs"
    by (simp add: word_of_nat_eq_0_iff)
  with assms have "(2::nat) ^ 64 \<le> length xs"
    by (simp add: dvd_imp_le)
  with True show ?thesis
    by (simp add: size_minus_1_def unsigned_minus_1_eq_mask mask_eq_exp_minus_1)
next
  case False
  then have "unat ((of_nat (length xs) :: size_t) - 1) = unat (of_nat (length xs) :: size_t) - 1"
    by (simp add: unat_minus_one)
  moreover have "unat (of_nat (length xs) :: size_t) \<le> length xs"
    by (simp add: unat_of_nat)
  moreover have "0 < unat (of_nat (length xs) :: size_t)"
    using False by (simp add: unat_gt_0)
  ultimately show ?thesis
    by (simp add: size_minus_1_def)
qed

lemma peek_u8_same_buffer: "mBuffer st' = mBuffer st \<Longrightarrow> peek_u8 st' p = peek_u8 st p"
  by (simp add: peek_u8_def mLast_def)

lemma peek_u16_same_buffer: "mBuffer st' = mBuffer st \<Longrightarrow> peek_u16 st' p = peek_u16 st p"
  by (simp add: peek_u16_def peek_u8_def mLast_def)

lemma peek_u16_in_bounds:
  assumes "0 \<le> p" "p + 2 \<le> mLast st"
  shows "\<exists>w. peek_u16 st p = Inr w"
  using assms by (simp add: peek_u16_def peek_u8_def bindE_def)

lemma assign_faces_spec:
  assumes "fm \<noteq> []" "0 \<le> mCurrent st" "mCurrent st + 2 * int k \<le> mLast st"
  shows "\<exists>fm' st'. assign_faces k iIndex fm st = Inr (fm', st') \<and>
           length fm' = length fm \<and> mBuffer st' = mBuffer st \<and> mScene st' = mScene st \<and>
           (\<forall>p < length fm. fm ! p = iIndex \<longrightarrow> fm' ! p = iIndex) \<and>
           (\<forall>j < k. \<forall>w. peek_u16 st (mCurrent st + 2 * int j) = Inr w \<longrightarrow>
                unat w < length fm \<longrightarrow> fm' ! unat w = iIndex)"
  using assms
proof (induction k arbitrary: fm st)
  case 0
  then show ?case by simp
next
  case (Suc k)
  from Suc.prems obtain iTemp where iTemp: "peek_u16 st (mCurrent st) = Inr iTemp"
    using peek_u16_in_bounds [of "mCurrent st" st] by auto
  define idx where "idx = (if unat iTemp \<ge> length fm then size_minus_1 fm else unat iTemp)"
  define st1 where "st1 = (if unat iTemp \<ge> length fm
     then advance 2 (log_add (LogError ''Invalid face index in face material list'') st)
     else advance 2 st)"
  define fm1 where "fm1 = fm[idx := iIndex]"
  have idx: "idx < length fm"
    using Suc.prems(1) size_minus_1_in_range [of fm] by (auto simp: idx_def)
  have step: "assign_faces (Suc k) iIndex fm st = assign_faces k iIndex fm1 st1"
    using iTemp idx Suc.prems(1) size_minus_1_in_range [of fm]
    by (auto simp: bindE_def vec_set_def idx_def st1_def fm1_def)
  have st1: "mBuffer st1 = mBuffer st" "mScene st1 = mScene st" "mCurrent st1 = mCurrent st + 2"
    by (auto simp: st1_def advance_def log_add_def)
  have "fm1 \<noteq> []" "0 \<le> mCurrent st1" "mCurrent st1 + 2 * int k \<le> mLast st1"
    using Suc.prems st1 by (auto simp: fm1_def mLast_def)
  from Suc.IH [OF this, of ] obtain fm' st' where
    res: "assign_faces k iIndex fm1 st1 = Inr (fm', st')"
      "length fm' = length fm1" "mBuffer st' = mBuffer st1" "mScene st' = mScene st1"
      "\<forall>p < length fm1. fm1 ! p = iIndex \<longrightarrow> fm' ! p = iIndex"
      "\<forall>j < k. \<forall>w. peek_u16 st1 (mCurrent st1 + 2 * int j) = Inr w \<longrightarrow>
           unat w < length fm1 \<longrightarrow> fm' ! unat w = iIndex"
    by blast
  have keep: "\<forall>p < length fm. fm ! p = iIndex \<longrightarrow> fm' ! p = iIndex"
  proof (intro allI impI)
    fix p assume p: "p < length fm" "fm ! p = iIndex"
    then have "fm1 ! p = iIndex"
      by (cases "p = idx") (simp_all add: fm1_def)
    with res(5) p show "fm' ! p = iIndex" by (simp add: fm1_def)
  qed
  have listed: "\<forall>j < Suc k. \<forall>w. peek_u16 st (mCurrent st + 2 * int j) = Inr w \<longrightarrow>
                unat w < length fm \<longrightarrow> fm' ! unat w = iIndex"
  proof (intro allI impI)
    fix j w
    assume j: "j < Suc k" and w: "peek_u16 st (mCurrent st + 2 * int j) = Inr w"
      and r: "unat w < length fm"
    show "fm' ! unat w = iIndex"
    proof (cases j)
      case 0
      with w iTemp have "w = iTemp" by simp
      with r have "fm1 ! unat w = iIndex"
        by (simp add: fm1_def idx_def)
      with res(5) r show ?thesis by (simp add: fm1_def)
    next
      case (Suc j')
      with w have "peek_u16 st1 (mCurrent st1 + 2 * int j') = Inr w"
        using st1 peek_u16_same_buffer [of st1 st "mCurrent st1 + 2 * int j'"]
        by (simp add: algebra_simps)
      with res(6) Suc j r show ?thesis by (simp add: fm1_def)
    qed
  qed
  from res keep listed step st1 show ?case
    by (auto simp: fm1_def)
qed

lemma assign_faces_empty:
  assumes "peek_u16 st (mCurrent st) = Inr iTemp"
  shows "assign_faces (Suc k) iIndex [] st = Inl (UndefinedBehaviour VectorOutOfRange)"
  using assms by (simp add: bindE_def vec_set_def)

lemma find_material_unmatched:
  assumes "\<forall>m \<in> set ms. \<exists>d. ASSIMP_stricmp st (mCurrent st) (mName m) = Inr d \<and> d \<noteq> 0"
  shows "find_material st ms i = Inr 0xFFFFFFFF"
  using assms by (induction ms arbitrary: i) (auto simp: bindE_def)


lemma sentinel_not_an_index:
  assumes "p < n" "n \<le> 0xcdcdcdcd"
  shows "(of_nat p :: uint32_t) \<noteq> 0xcdcdcdcd"
proof
  assume "(of_nat p :: uint32_t) = 0xcdcdcdcd"
  then have "unat (of_nat p :: uint32_t) = 0xcdcdcdcd"
    by simp
  moreover have "unat (of_nat p :: uint32_t) = p"
    using assms by (simp add: unat_of_nat)
  ultimately show False
    using assms by simp
qed

text \<open>
  C7, as the code has it. A face-material chunk whose name compares unequal to the
  name of every material decoded so far: provided the mesh has faces and the name, the
  count and the face indices lie inside the buffer, the handler returns normally, and
  every face index it lists that is in range has the value \<open>0xcdcdcdcd\<close> afterwards.
  That value is not 0 and not the index of a material (of fewer than \<open>0xcdcdcdcd\<close>
  materials).
\<close>

theorem face_material_unresolved:
  assumes mesh: "vec_back (mMeshes (mScene st)) = Inr mMesh"
    and tag: "Flag psChunk = CHUNK_FACEMAT"
    and name: "scan_asciiz st pcCurNext (mCurrent st) 0 = Inr (sz, cnt, overlaps)"
    and unknown: "\<forall>m \<in> set (mMaterials (mScene st)).
                    \<exists>d. ASSIMP_stricmp st (mCurrent st) (mName m) = Inr d \<and> d \<noteq> 0"
    and count: "peek_u16 st sz = Inr iCnt"
    and inside: "0 \<le> sz" "sz + 2 + 2 * int (unat iCnt) \<le> mLast st"
    and faces: "mFaceMaterials mMesh \<noteq> []"
    and materials: "length (mMaterials (mScene st)) \<le> 0xcdcdcdcd"
  shows "\<exists>st' mesh'.
           ParseFaceChunk_switch n psChunk pcCurNext st = Some (Inr st') \<and>
           vec_back (mMeshes (mScene st')) = Inr mesh' \<and>
           length (mFaceMaterials mesh') = length (mFaceMaterials mMesh) \<and>
           (\<forall>j < unat iCnt. \<forall>w. peek_u16 st (sz + 2 + 2 * int j) = Inr w \<longrightarrow>
               unat w < length (mFaceMaterials mMesh) \<longrightarrow>
               mFaceMaterials mesh' ! unat w = 0xcdcdcdcd) \<and>
           (\<forall>p < length (mMaterials (mScene st)). (of_nat p :: uint32_t) \<noteq> 0xcdcdcdcd) \<and>
           (0xcdcdcdcd :: uint32_t) \<noteq> 0"
proof -
  let ?st0 = "st\<lparr>mCurrent := sz + 2\<rparr>"
  have found: "find_material st (mMaterials (mScene st)) 0 = Inr 0xFFFFFFFF"
    using unknown by (rule find_material_unmatched)
  have pre: "0 \<le> mCurrent ?st0" "mCurrent ?st0 + 2 * int (unat iCnt) \<le> mLast ?st0"
    using inside by (simp_all add: mLast_def)
  from assign_faces_spec [OF faces pre, of "0xcdcdcdcd"] obtain fm' st1 where
    res: "assign_faces (unat iCnt) 0xcdcdcdcd (mFaceMaterials mMesh) ?st0 = Inr (fm', st1)"
      "length fm' = length (mFaceMaterials mMesh)" "mScene st1 = mScene ?st0"
      "\<forall>j < unat iCnt. \<forall>w. peek_u16 ?st0 (mCurrent ?st0 + 2 * int j) = Inr w \<longrightarrow>
           unat w < length (mFaceMaterials mMesh) \<longrightarrow> fm' ! unat w = 0xcdcdcdcd"
    by blast
  have meshes: "mMeshes (mScene st) \<noteq> []" "last (mMeshes (mScene st)) = mMesh"
    using mesh by (auto simp: vec_back_def split: if_splits)
  define st' where
    "st' = st1\<lparr>mScene := (mScene st1)\<lparr>mMeshes :=
              butlast (mMeshes (mScene st1)) @ [(last (mMeshes (mScene st1)))\<lparr>mFaceMaterials := fm'\<rparr>]\<rparr>\<rparr>"
  have run: "ParseFaceChunk_switch n psChunk pcCurNext st = Some (Inr st')"
    using mesh tag name found count res(1) res(3) meshes
    by (simp add: ParseFaceChunk_switch_def bindE_def with_mesh_def back_upd_def st'_def
          CHUNK_FACEMAT_def CHUNK_SMOOLIST_def)
  have last_mesh: "vec_back (mMeshes (mScene st')) = Inr (mMesh\<lparr>mFaceMaterials := fm'\<rparr>)"
    using res(3) meshes by (simp add: st'_def vec_back_def)
  have listed: "\<forall>j < unat iCnt. \<forall>w. peek_u16 st (sz + 2 + 2 * int j) = Inr w \<longrightarrow>
               unat w < length (mFaceMaterials mMesh) \<longrightarrow> fm' ! unat w = 0xcdcdcdcd"
    using res(4) peek_u16_same_buffer [of ?st0 st] by simp
  have distinct: "\<forall>p < length (mMaterials (mScene st)). (of_nat p :: uint32_t) \<noteq> 0xcdcdcdcd"
    using materials sentinel_not_an_index by blast
  from run last_mesh res(2) listed distinct show ?thesis
    by (intro exI [of _ st'] exI [of _ "mMesh\<lparr>mFaceMaterials := fm'\<rparr>"]) simp
qed

theorem face_material_unresolved_witness:
  "(\<exists>st' mesh'.
      ParseFaceChunk_switch 0 facemat_chunk 8 facemat_state = Some (Inr st') \<and>
      vec_back (mMeshes (mScene st')) = Inr mesh' \<and>
      length (mFaceMaterials mesh') = length (mFaceMaterials facemat_mesh) \<and>
      (\<forall>j < unat (2 :: uint16_t). \<forall>w. peek_u16 facemat_state (2 + 2 + 2 * int j) = Inr w \<longrightarrow>
          unat w < length (mFaceMaterials facemat_mesh) \<longrightarrow>
          mFaceMaterials mesh' ! unat w = 0xcdcdcdcd) \<and>
      (\<forall>p < length (mMaterials (mScene facemat_state)). (of_nat p :: uint32_t) \<noteq> 0xcdcdcdcd) \<and>
      (0xcdcdcdcd :: uint32_t) \<noteq> 0) \<and>
   view face_materials (ParseFaceChunk_switch 0 facemat_chunk 8 facemat_state) =
     Some (Inr [0xcdcdcdcd, 7, 0xcdcdcdcd])"
proof -
  have mesh: "vec_back (mMeshes (mScene facemat_state)) = Inr facemat_mesh"
    by code_simp
  have tag: "Flag facemat_chunk = CHUNK_FACEMAT"
    by (simp add: facemat_chunk_def)
  have name: "scan_asciiz facemat_state 8 (mCurrent facemat_state) 0 = Inr (2, 1, False)"
    by code_simp
  have "ASSIMP_stricmp facemat_state (mCurrent facemat_state) (bytes_of ''y'') = Inr (- 1)"
    by code_simp
  then have unknown: "\<forall>m \<in> set (mMaterials (mScene facemat_state)).
      \<exists>d. ASSIMP_stricmp facemat_state (mCurrent facemat_state) (mName m) = Inr d \<and> d \<noteq> 0"
    by (simp add: facemat_state_def importer0_def)
  have count: "peek_u16 facemat_state 2 = Inr 2"
    by code_simp
  have inside: "(0 :: int) \<le> 2" "2 + 2 + 2 * int (unat (2 :: uint16_t)) \<le> mLast facemat_state"
    by (simp_all add: mLast_def facemat_state_def facemat_payload_def bytes_of_def le16_def)
  have faces: "mFaceMaterials facemat_mesh \<noteq> []"
    by (simp add: facemat_mesh_def)
  have materials: "length (mMaterials (mScene facemat_state)) \<le> 0xcdcdcdcd"
    by (simp add: facemat_state_def)
  have run: "view face_materials (ParseFaceChunk_switch 0 facemat_chunk 8 facemat_state) =
     Some (Inr [0xcdcdcdcd, 7, 0xcdcdcdcd])"
    by code_simp
  from face_material_unresolved [OF mesh tag name unknown count inside faces materials, of 0] run
  show ?thesis by blast
qed

text \<open>
  An equation for running \<open>assign_faces\<close>: on an empty array the index \<open>size() - 1\<close>
  is out of range whatever it is, so it need not be computed.
\<close>

lemma assign_faces_code [code]:
  "assign_faces 0 iIndex fm st = Inr (fm, st)"
  "assign_faces (Suc k) iIndex fm st =
     bindE (peek_u16 st (mCurrent st)) (\<lambda>iTemp.
       if unat iTemp \<ge> length fm then
         (if fm = [] then Inl (UndefinedBehaviour VectorOutOfRange)
          else bindE (vec_set (size_minus_1 fm) iIndex fm) (\<lambda>fm1.
                 assign_faces k iIndex fm1
                   (advance 2 (log_add (LogError ''Invalid face index in face material list'') st))))
       else
         bindE (vec_set (unat iTemp) iIndex fm) (\<lambda>fm1.
           assign_faces k iIndex fm1 (advance 2 st)))"
  by (simp, cases "fm = []") (auto simp: vec_set_def bindE_def split: sum.split)

text \<open>
  C7 as stated holds for \<open>file_one_face\<close>, whose one face gets the value
  \<open>0xcdcdcdcd\<close>. It fails for the other two files, whose face-material chunks name the
  same unknown material. In \<open>file_no_faces\<close> the face list is empty, face 0 is out of
  range, and the write goes to the element \<open>size() - 1\<close> of an empty array. In
  \<open>file_count_past_the_end\<close> the second face index is read behind the last byte of the
  file. Neither run goes on to the end of the file.
\<close>

theorem unmatched_face_material_aborts_counterexample:
  "view face_materials (decode release file_one_face) = Some (Inr [0xcdcdcdcd]) \<and>
   view face_materials (decode release file_no_faces) =
     Some (Inl (UndefinedBehaviour VectorOutOfRange)) \<and>
   view face_materials (decode release file_count_past_the_end) =
     Some (Inl (UndefinedBehaviour BufferOverread))"
  by code_simp

text \<open>
  C10. When the first face index of a face-material chunk is read and the mesh has no
  face, the write goes to index \<open>size() - 1 = 2^64 - 1\<close> of an empty vector, which is out of
  range; with at least one face the same index is in range.
\<close>

theorem out_of_range_fallback_needs_faces:
  assumes mesh: "vec_back (mMeshes (mScene st)) = Inr mMesh"
    and tag: "Flag psChunk = CHUNK_FACEMAT"
    and name: "scan_asciiz st pcCurNext (mCurrent st) 0 = Inr (sz, cnt, overlaps)"
    and found: "find_material st (mMaterials (mScene st)) 0 = Inr found"
    and count: "peek_u16 st sz = Inr iCnt" "iCnt \<noteq> 0"
    and first: "peek_u16 st (sz + 2) = Inr iTemp"
  shows "(if mFaceMaterials mMesh = []
          then size_minus_1 (mFaceMaterials mMesh) = 2 ^ 64 - 1 \<and>
               vec_set (size_minus_1 (mFaceMaterials mMesh)) iIndex (mFaceMaterials mMesh) =
                 Inl (UndefinedBehaviour VectorOutOfRange) \<and>
               ParseFaceChunk_switch n psChunk pcCurNext st =
                 Some (Inl (UndefinedBehaviour VectorOutOfRange))
          else size_minus_1 (mFaceMaterials mMesh) < length (mFaceMaterials mMesh) \<and>
               (\<exists>fm. vec_set (size_minus_1 (mFaceMaterials mMesh)) iIndex (mFaceMaterials mMesh) =
                       Inr fm))"
proof (cases "mFaceMaterials mMesh = []")
  case True
  from count(2) obtain k where k: "unat iCnt = Suc k"
    by (cases "unat iCnt") (simp_all add: unat_eq_0)
  have "peek_u16 (st\<lparr>mCurrent := sz + 2\<rparr>) (mCurrent (st\<lparr>mCurrent := sz + 2\<rparr>)) = Inr iTemp"
    using first peek_u16_same_buffer [of "st\<lparr>mCurrent := sz + 2\<rparr>" st "sz + 2"] by simp
  then have "assign_faces (Suc k) (if 0xFFFFFFFF = found then 0xcdcdcdcd else found) []
               (st\<lparr>mCurrent := sz + 2\<rparr>) = Inl (UndefinedBehaviour VectorOutOfRange)"
    by (rule assign_faces_empty)
  with True k have loop:
    "assign_faces (unat iCnt) (if 0xFFFFFFFF = found then 0xcdcdcdcd else found)
       (mFaceMaterials mMesh) (st\<lparr>mCurrent := sz + 2\<rparr>) =
     Inl (UndefinedBehaviour VectorOutOfRange)"
    by (simp del: assign_faces.simps)
  have "ParseFaceChunk_switch n psChunk pcCurNext st =
          Some (Inl (UndefinedBehaviour VectorOutOfRange))"
    using mesh tag name found count(1) loop
    by (simp add: ParseFaceChunk_switch_def bindE_def CHUNK_FACEMAT_def CHUNK_SMOOLIST_def
          del: assign_faces.simps)
  with True show ?thesis
    by (simp add: size_minus_1_Nil vec_set_def)
next
  case False
  with size_minus_1_in_range [of "mFaceMaterials mMesh"] show ?thesis
    by (simp add: vec_set_def)
qed

theorem out_of_range_fallback_needs_faces_witness:
  "size_minus_1 (mFaceMaterials Mesh0) = 2 ^ 64 - 1 \<and>
   vec_set (size_minus_1 (mFaceMaterials Mesh0)) 0xcdcdcdcd (mFaceMaterials Mesh0) =
     Inl (UndefinedBehaviour VectorOutOfRange) \<and>
   ParseFaceChunk_switch 0 facemat_chunk 8 facemat_no_faces =
     Some (Inl (UndefinedBehaviour VectorOutOfRange))"
proof -
  have mesh: "vec_back (mMeshes (mScene facemat_no_faces)) = Inr Mesh0"
    by code_simp
  have tag: "Flag facemat_chunk = CHUNK_FACEMAT"
    by (simp add: facemat_chunk_def)
  have name: "scan_asciiz facemat_no_faces 8 (mCurrent facemat_no_faces) 0 = Inr (2, 1, False)"
    by code_simp
  have found: "find_material facemat_no_faces (mMaterials (mScene facemat_no_faces)) 0 =
                 Inr 0xFFFFFFFF"
    by code_simp
  have count: "peek_u16 facemat_no_faces 2 = Inr 2" "(2 :: uint16_t) \<noteq> 0"
    by code_simp+
  have first: "peek_u16 facemat_no_faces (2 + 2) = Inr 0"
    by code_simp
  have empty: "mFaceMaterials Mesh0 = []"
    by (simp add: Mesh0_def)
  from out_of_range_fallback_needs_faces [OF mesh tag name found count first, of "0xcdcdcdcd" 0] empty
  show ?thesis by (simp add: vec_set_def)
qed

subsection \<open>Percentages\<close>

lemma ParsePercentageChunk_scene:
  "ParsePercentageChunk st = Inr (v, st1) \<Longrightarrow> mScene st1 = mScene st"
  by (auto simp: ParsePercentageChunk_def ReadChunk_def bindE_def advance_def peek_Chunk_def
           split: sum.splits option.splits if_splits prod.splits)

lemma stored_with_material:
  "mMaterials (mScene st) \<noteq> [] \<Longrightarrow>
   stored field (Some (with_material f st)) = Some (field (f (last (mMaterials (mScene st)))))"
  by (simp add: stored_def with_material_def back_upd_def bindE_def)

lemma stored_material_percentage:
  assumes "mMaterials (mScene st) \<noteq> []" and "ParsePercentageChunk st = Inr (v, st1)"
  shows "stored field (Some (material_percentage cfg store fallback convert st)) =
         Some (field (store (if is_qnan cfg v then fallback else convert v)
                        (last (mMaterials (mScene st)))))"
  using assms ParsePercentageChunk_scene [OF assms(2)]
  by (simp add: material_percentage_def vec_back_def bindE_def stored_with_material)

lemma at_percentage_read:
  "ParsePercentageChunk at_percentage = Inr (Raw 0x3F400000, at_percentage\<lparr>mCurrent := 6\<rparr>)"
  by code_simp

lemma at_percentage_materials: "mMaterials (mScene at_percentage) \<noteq> []"
  by (simp add: at_percentage_def)

text \<open>
  C8. When the percentage chunk in front of a material handler is read as \<open>v\<close>, the four
  handlers store, in the last material: transparency \<open>1.0f - v * 65535.0f / 100.0f\<close>,
  shininess \<open>v * 65535.0f\<close>, shininess strength \<open>v * (65535.0f / 100.0f)\<close>
  (the quotient of the two constants is formed first and \<open>v\<close> is multiplied by it), and
  self-illumination \<open>v * 65535.0f / 100.0f\<close>; when \<open>v\<close> is not a number, transparency
  is \<open>1.0f\<close> and the other three are \<open>0.0f\<close>.
\<close>

theorem percentage_conversions:
  assumes "mMaterials (mScene st) \<noteq> []" and "ParsePercentageChunk st = Inr (v, st1)"
  shows "stored mTransparency
           (ParseMaterialChunk_switch cfg n \<lparr>Flag = CHUNK_MAT_TRANSPARENCY, Size = s\<rparr> nx st) =
           Some (if is_qnan cfg v then f_one else FSub f_one (FDiv (FMul v f_0xFFFF) f_100)) \<and>
         stored mSpecularExponent
           (ParseMaterialChunk_switch cfg n \<lparr>Flag = CHUNK_MAT_SHININESS, Size = s\<rparr> nx st) =
           Some (if is_qnan cfg v then f_zero else FMul v f_0xFFFF) \<and>
         stored mShininessStrength
           (ParseMaterialChunk_switch cfg n \<lparr>Flag = CHUNK_MAT_SHININESS_PERCENT, Size = s\<rparr> nx st) =
           Some (if is_qnan cfg v then f_zero else FMul v (FDiv f_0xFFFF f_100)) \<and>
         stored (\<lambda>m. mTextureBlend (sTexEmissive m))
           (ParseMaterialChunk_switch cfg n \<lparr>Flag = CHUNK_MAT_SELF_ILPCT, Size = s\<rparr> nx st) =
           Some (if is_qnan cfg v then f_zero else FDiv (FMul v f_0xFFFF) f_100)"
proof -
  note sw = ParseMaterialChunk_switch_def CHUNK_defs stored_material_percentage [OF assms]
  have "stored mTransparency
           (ParseMaterialChunk_switch cfg n \<lparr>Flag = CHUNK_MAT_TRANSPARENCY, Size = s\<rparr> nx st) =
           Some (if is_qnan cfg v then f_one else FSub f_one (FDiv (FMul v f_0xFFFF) f_100))"
    by (simp add: sw)
  moreover have "stored mSpecularExponent
           (ParseMaterialChunk_switch cfg n \<lparr>Flag = CHUNK_MAT_SHININESS, Size = s\<rparr> nx st) =
           Some (if is_qnan cfg v then f_zero else FMul v f_0xFFFF)"
    by (simp add: sw)
  moreover have "stored mShininessStrength
           (ParseMaterialChunk_switch cfg n \<lparr>Flag = CHUNK_MAT_SHININESS_PERCENT, Size = s\<rparr> nx st) =
           Some (if is_qnan cfg v then f_zero else FMul v (FDiv f_0xFFFF f_100))"
    by (simp add: sw)
  moreover have "stored (\<lambda>m. mTextureBlend (sTexEmissive m))
           (ParseMaterialChunk_switch cfg n \<lparr>Flag = CHUNK_MAT_SELF_ILPCT, Size = s\<rparr> nx st) =
           Some (if is_qnan cfg v then f_zero else FDiv (FMul v f_0xFFFF) f_100)"
    by (simp add: sw)
  ultimately show ?thesis by simp
qed

text \<open>The four handlers in front of the percentage chunk that carries \<open>0.75\<close>.\<close>

theorem percentage_conversions_witness:
  "mMaterials (mScene at_percentage) \<noteq> [] \<and>
   ParsePercentageChunk at_percentage = Inr (Raw 0x3F400000, at_percentage\<lparr>mCurrent := 6\<rparr>) \<and>
   stored mTransparency
     (ParseMaterialChunk_switch release 0 \<lparr>Flag = CHUNK_MAT_TRANSPARENCY, Size = 16\<rparr> 10 at_percentage) =
     Some (FSub f_one (FDiv (FMul (Raw 0x3F400000) f_0xFFFF) f_100)) \<and>
   stored mSpecularExponent
     (ParseMaterialChunk_switch release 0 \<lparr>Flag = CHUNK_MAT_SHININESS, Size = 16\<rparr> 10 at_percentage) =
     Some (FMul (Raw 0x3F400000) f_0xFFFF) \<and>
   stored mShininessStrength
     (ParseMaterialChunk_switch release 0 \<lparr>Flag = CHUNK_MAT_SHININESS_PERCENT, Size = 16\<rparr> 10 at_percentage) =
     Some (FMul (Raw 0x3F400000) (FDiv f_0xFFFF f_100)) \<and>
   stored (\<lambda>m. mTextureBlend (sTexEmissive m))
     (ParseMaterialChunk_switch release 0 \<lparr>Flag = CHUNK_MAT_SELF_ILPCT, Size = 16\<rparr> 10 at_percentage) =
     Some (FDiv (FMul (Raw 0x3F400000) f_0xFFFF) f_100)"
  using percentage_conversions [OF at_percentage_materials at_percentage_read,
          of release 0 16 10]
  by (simp add: at_percentage_materials at_percentage_read release_def)

text \<open>
  The shininess strength of \<open>file_shininess_strength\<close> is \<open>0.75f * (65535.0f / 100.0f)\<close>,
  the float \<open>0x43F5C199\<close>; \<open>0.75f * 65535.0f / 100.0f\<close>, which is what the
  self-illumination handler computes from the same percentage, is the float
  \<open>0x43F5C19A\<close>.
\<close>

theorem shininess_strength_counterexample:
  "stored mShininessStrength (decode release file_shininess_strength) =
     Some (FMul (Raw 0x3F400000) (FDiv f_0xFFFF f_100)) \<and>
   binary32 (FMul (Raw 0x3F400000) (FDiv f_0xFFFF f_100)) = Some 0x43F5C199 \<and>
   binary32 (FDiv (FMul (Raw 0x3F400000) f_0xFFFF) f_100) = Some 0x43F5C19A"
  by code_simp

subsection \<open>Colours\<close>

text \<open>
  C9. The byte colour \<open>(200, 100, 50)\<close> decodes to the three float quotients by
  \<open>255.0f\<close>, whether or not a percentage would be accepted; the linear variant raises
  each quotient to the power \<open>1.0f / 2.2f\<close>. The floats are the expressions of the
  source, over the bytes of the file; the three quotients are the binary32 numbers
  \<open>0x3F48C8C9\<close>, \<open>0x3EC8C8C9\<close> and \<open>0x3E48C8C9\<close>.
\<close>

theorem byte_rgb_colour:
  "map_sum id fst (ParseColorChunk False rgb_bytes) =
     Inr \<lparr>cr = FDiv (OfU8 200) f_255, cg = FDiv (OfU8 100) f_255, cb = FDiv (OfU8 50) f_255\<rparr> \<and>
   map_sum id fst (ParseColorChunk True rgb_bytes) =
     Inr \<lparr>cr = FDiv (OfU8 200) f_255, cg = FDiv (OfU8 100) f_255, cb = FDiv (OfU8 50) f_255\<rparr> \<and>
   map_sum id fst (ParseColorChunk False lin_rgb_bytes) =
     Inr \<lparr>cr = Powf (FDiv (OfU8 200) f_255) (FDiv f_one (Lit 22 1)),
          cg = Powf (FDiv (OfU8 100) f_255) (FDiv f_one (Lit 22 1)),
          cb = Powf (FDiv (OfU8 50) f_255) (FDiv f_one (Lit 22 1))\<rparr> \<and>
   map_sum id fst (ParseColorChunk True lin_rgb_bytes) =
     Inr \<lparr>cr = Powf (FDiv (OfU8 200) f_255) (FDiv f_one (Lit 22 1)),
          cg = Powf (FDiv (OfU8 100) f_255) (FDiv f_one (Lit 22 1)),
          cb = Powf (FDiv (OfU8 50) f_255) (FDiv f_one (Lit 22 1))\<rparr> \<and>
   map binary32 [FDiv (OfU8 200) f_255, FDiv (OfU8 100) f_255, FDiv (OfU8 50) f_255] =
     [Some 0x3F48C8C9, Some 0x3EC8C8C9, Some 0x3E48C8C9]"
  by code_simp

end
